theory Spec2Isabelle
  imports Main "HOL-Library.Word" "HOL-Library.Finite_Map"
begin

section \<open>Identifiers, span contexts and attribute maps\<close>

text \<open>
  The event identifier (\<^verbatim>\<open>observer.EventID\<close>) is the sequence number of an event; 0 is
  the "no event" value. Trace and span identifiers are 64-bit machine words.
\<close>

type_synonym EventID = nat
type_synonym uint64 = "64 word"

record TraceID =
  High :: uint64
  Low :: uint64

record SpanContext =
  TraceID :: TraceID
  SpanID :: uint64

text \<open>\<^verbatim>\<open>observer.ScopeID\<close>: an event identifier with an embedded span context.\<close>

record ScopeID =
  EventID :: EventID
  SpanContext :: SpanContext

definition EmptySpanContext :: SpanContext where
  "EmptySpanContext = \<lparr>TraceID = \<lparr>High = 0, Low = 0\<rparr>, SpanID = 0\<rparr>"

definition EmptyScopeID :: ScopeID where
  "EmptyScopeID = \<lparr>EventID = 0, SpanContext = EmptySpanContext\<rparr>"

text \<open>
  Modelled from the spec: \<^verbatim>\<open>core.SpanContext.HasTraceID\<close> (package api/core, not under
  src/). A span context carries a trace id when its 128-bit trace id is not the zero value.
\<close>

definition HasTraceID :: "SpanContext \<Rightarrow> bool" where
  "HasTraceID sc \<longleftrightarrow> High (TraceID sc) \<noteq> 0 \<or> Low (TraceID sc) \<noteq> 0"

text \<open>
  Modelled from the spec: keys, values and key-values of package api/core and api/key (not
  under src/), as far as the sources under src/ use them: a key has a name and an optional
  description, and \<^verbatim>\<open>Key.Bool\<close> and \<^verbatim>\<open>Key.String\<close> pair it with a value.
\<close>

record Key =
  keyName :: string
  keyDescription :: string

datatype Value = BOOL bool | STRING string

record KeyValue =
  kvKey :: Key
  kvValue :: Value

definition key_New :: "string \<Rightarrow> Key" where
  "key_New n = \<lparr>keyName = n, keyDescription = []\<rparr>"

definition WithDescription :: "string \<Rightarrow> Key \<Rightarrow> Key" where
  "WithDescription d k = k\<lparr>keyDescription := d\<rparr>"

definition Key_Bool :: "Key \<Rightarrow> bool \<Rightarrow> KeyValue" where
  "Key_Bool k b = \<lparr>kvKey = k, kvValue = BOOL b\<rparr>"

definition Key_String :: "Key \<Rightarrow> string \<Rightarrow> KeyValue" where
  "Key_String k s = \<lparr>kvKey = k, kvValue = STRING s\<rparr>"

text \<open>
  Modelled from the spec: \<^verbatim>\<open>tag.Map\<close>, \<^verbatim>\<open>tag.MapUpdate\<close> and \<^verbatim>\<open>tag.Map.Apply\<close> (package
  api/tag, not under src/). An attribute map is an immutable key-value snapshot. A delta adds
  or replaces a single key-value and several key-values, and applies a single mutator function
  and several mutator functions, in this order, left to right, to the base snapshot; the base
  snapshot is a value and is never changed. A field of the delta that is not set (the zero
  value in Go) is \<open>None\<close>.
\<close>

type_synonym tag_map = "(Key, Value) fmap"

type_synonym Mutator = "tag_map \<Rightarrow> tag_map"

record MapUpdate =
  SingleKV :: "KeyValue option"
  MultiKV :: "KeyValue list"
  SingleMutator :: "Mutator option"
  MultiMutator :: "Mutator list"

definition NewEmptyMap :: tag_map where
  "NewEmptyMap = fmempty"

definition upsert :: "KeyValue \<Rightarrow> tag_map \<Rightarrow> tag_map" where
  "upsert kv m = fmupd (kvKey kv) (kvValue kv) m"

definition Apply :: "tag_map \<Rightarrow> MapUpdate \<Rightarrow> tag_map" where
  "Apply t update =
     (let m1 = (case SingleKV update of None \<Rightarrow> t | Some kv \<Rightarrow> upsert kv t);
          m2 = fold upsert (MultiKV update) m1;
          m3 = (case SingleMutator update of None \<Rightarrow> m2 | Some f \<Rightarrow> f m2)
      in fold (\<lambda>f m. f m) (MultiMutator update) m3)"

text \<open>An update that carries only several key-values, as \<^verbatim>\<open>tag.MapUpdate{MultiKV: kvs}\<close>.\<close>

definition MapUpdate_MultiKV :: "KeyValue list \<Rightarrow> MapUpdate" where
  "MapUpdate_MultiKV kvs =
     \<lparr>SingleKV = None, MultiKV = kvs, SingleMutator = None, MultiMutator = []\<rparr>"

section \<open>The producer's handles and the ambient context\<close>

text \<open>\<^verbatim>\<open>type tracer struct { resources observer.EventID }\<close> (trace.go).\<close>

record tracer =
  resources :: EventID

text \<open>
  Modelled from the spec: the span handle of the streaming SDK (span.go, not under src/), as
  \<^verbatim>\<open>Start\<close> builds it: the tracer and the span's own scope reference.
\<close>

record span =
  span_tracer :: tracer
  initial :: ScopeID

text \<open>
  Modelled from the spec: the ambient execution context (\<^verbatim>\<open>context.Context\<close> with the
  values that api/trace and api/tag keep in it): the active span, if any, and the tag set.
  \<^verbatim>\<open>tag.FromContext\<close> reads the tag set.
\<close>

record Context =
  ctxSpan :: "span option"
  ctxTags :: tag_map

definition FromContext :: "Context \<Rightarrow> tag_map" where
  "FromContext ctx = ctxTags ctx"

section \<open>Events of the stream and output records\<close>

text \<open>
  A time stamp (\<^verbatim>\<open>time.Time\<close>) is an integer count of nanoseconds. A \<^verbatim>\<open>time.Duration\<close> is
  an \<^verbatim>\<open>int64\<close> count of nanoseconds, and \<^verbatim>\<open>Time.Sub\<close> returns the difference when it can
  be stored in a \<^verbatim>\<open>Duration\<close>, and the maximum or the minimum \<^verbatim>\<open>Duration\<close> when the
  difference is beyond it. A status code (\<^verbatim>\<open>codes.Code\<close>) is a 32-bit word; a \<^verbatim>\<open>float64\<close>
  that is only passed on is its 64 bits; a \<^verbatim>\<open>stats.Measure\<close> is an opaque handle.
\<close>

type_synonym time = int
type_synonym Duration = int
type_synonym Code = "32 word"
type_synonym float64 = "64 word"
type_synonym Measure = nat

definition maxDuration :: Duration where
  "maxDuration = 9223372036854775807"

definition minDuration :: Duration where
  "minDuration = - 9223372036854775808"

definition time_Sub :: "time \<Rightarrow> time \<Rightarrow> Duration" where
  "time_Sub t u =
     (let d = t - u
      in if d > maxDuration then maxDuration
         else if d < minDuration then minDuration
         else d)"

text \<open>
  \<^verbatim>\<open>observer.EventType\<close>, in the order of the generated stringer table, with
  \<^verbatim>\<open>SET_STATUS\<close>, which reader.go handles.
\<close>

datatype observer_EventType =
    observer_INVALID
  | observer_START_SPAN
  | observer_FINISH_SPAN
  | observer_ADD_EVENT
  | observer_ADD_EVENTF
  | observer_NEW_SCOPE
  | observer_NEW_MEASURE
  | observer_NEW_METRIC
  | observer_MODIFY_ATTR
  | observer_RECORD_STATS
  | observer_SET_STATUS

text \<open>\<^verbatim>\<open>stats.Measurement\<close>: a measure (an interface value, \<open>None\<close> is nil) and a value.\<close>

record stats_Measurement =
  smMeasure :: "Measure option"
  smValue :: float64

text \<open>
  \<^verbatim>\<open>observer.Event\<close>, with the fields that reader.go and trace.go read and write. The
  context is an interface value: \<open>None\<close> is nil.
\<close>

record observer_Event =
  obType :: observer_EventType
  obTime :: time
  obSequence :: EventID
  obContext :: "Context option"
  obScope :: ScopeID
  obParent :: ScopeID
  obString :: string
  obAttribute :: "KeyValue option"
  obAttributes :: "KeyValue list"
  obMutator :: "Mutator option"
  obMutators :: "Mutator list"
  obStats :: "stats_Measurement list"
  obStat :: stats_Measurement
  obStatus :: Code

text \<open>\<^verbatim>\<open>reader.EventType\<close> and \<^verbatim>\<open>reader.Event\<close>, the output record (reader.go).\<close>

datatype EventType =
    INVALID
  | START_SPAN
  | FINISH_SPAN
  | ADD_EVENT
  | MODIFY_ATTR
  | RECORD_STATS
  | SET_STATUS

record Measurement =
  mMeasure :: "Measure option"
  mValue :: float64
  mTags :: "tag_map option"

record Event =
  evType :: EventType
  evTime :: time
  evSequence :: EventID
  evSpanContext :: SpanContext
  evTags :: tag_map
  evAttributes :: tag_map
  evStats :: "Measurement list"
  evParent :: SpanContext
  evParentAttributes :: "tag_map option"
  evDuration :: Duration
  evName :: string
  evMessage :: string
  evStatus :: Code

section \<open>The reader observer\<close>

text \<open>
  A \<^verbatim>\<open>*readerSpan\<close> is an address into a heap of span objects, since \<^verbatim>\<open>SET_STATUS\<close>
  writes the status of a span that scope nodes share by pointer. The \<^verbatim>\<open>readerScope\<close> that
  a \<^verbatim>\<open>readerSpan\<close> embeds by pointer is allocated with it and reachable through it only, so
  it is a field of the span object. A \<^verbatim>\<open>*readerScope\<close> of the scope table is never written
  after its creation and is kept by value.
\<close>

type_synonym addr = nat

record readerScope =
  span :: "addr option"
  parent :: EventID
  attributes :: tag_map

record readerSpan =
  name :: string
  start :: time
  startTags :: tag_map
  spanContext :: SpanContext
  status :: Code
  readerScope :: readerScope

record readerMeasure =
  measureName :: string

record readerMetric =
  readerMeasure :: readerMeasure

text \<open>The values of the scope table: \<^verbatim>\<open>*readerScope\<close> or \<^verbatim>\<open>*readerSpan\<close>.\<close>

datatype scope_entry = ScopeEntry readerScope | SpanEntry addr

text \<open>
  A reader sink is known by its identity; a call \<^verbatim>\<open>reader.Read(read)\<close> is recorded in the
  trace \<open>delivered\<close>. The three \<^verbatim>\<open>sync.Map\<close>s are finite maps.
\<close>

type_synonym Reader = nat

record readerObserver =
  readers :: "Reader list"
  scopes :: "(EventID, scope_entry) fmap"
  measures :: "(EventID, readerMeasure) fmap"
  metrics :: "(EventID, readerMetric) fmap"
  spanHeap :: "addr \<Rightarrow> readerSpan"
  spanNext :: addr
  delivered :: "(Reader \<times> Event) list"

text \<open>The panics of reader.go, and the nil dereference of \<^verbatim>\<open>tag.FromContext(nil)\<close>.\<close>

datatype panic =
    SpanNotFound ScopeID
  | ParentScopeNotFound
  | MetricMeasureNotFound
  | ScopeNotFound EventID
  | UnhandledCase observer_EventType
  | NilContext

definition NewReaderObserver :: "Reader list \<Rightarrow> readerObserver" where
  "NewReaderObserver rs =
     \<lparr>readers = rs, scopes = fmempty, measures = fmempty, metrics = fmempty,
      spanHeap = (\<lambda>_. \<lparr>name = [], start = 0, startTags = NewEmptyMap,
                        spanContext = EmptySpanContext, status = 0,
                        readerScope = \<lparr>span = None, parent = 0, attributes = NewEmptyMap\<rparr>\<rparr>),
      spanNext = 0, delivered = []\<rparr>"

text \<open>
  \<^verbatim>\<open>readScope\<close>. The scope table holds values of the two node types only, so the last
  \<^verbatim>\<open>return\<close> of the Go function, for a value of another type, is never reached.
\<close>

definition readScope :: "readerObserver \<Rightarrow> ScopeID \<Rightarrow> panic + (tag_map \<times> addr option)" where
  "readScope ro sid =
     (if EventID sid = 0 then Inr (NewEmptyMap, None)
      else case fmlookup (scopes ro) (EventID sid) of
             None \<Rightarrow> Inl (ScopeNotFound (EventID sid))
           | Some (ScopeEntry sp) \<Rightarrow> Inr (attributes sp, span sp)
           | Some (SpanEntry a) \<Rightarrow> Inr (attributes (readerScope (spanHeap ro a)), Some a))"

definition readMeasureScope :: "readerObserver \<Rightarrow> Measure option \<Rightarrow> tag_map option \<times> addr option" where
  "readMeasureScope ro m = (None, None)"

definition addMeasurement :: "readerObserver \<Rightarrow> Event \<Rightarrow> stats_Measurement \<Rightarrow> Event" where
  "addMeasurement ro e m =
     (let attrs = fst (readMeasureScope ro (smMeasure m))
      in e\<lparr>evStats := evStats e @ [\<lparr>mMeasure = smMeasure m, mValue = smValue m, mTags = attrs\<rparr>]\<rparr>)"

text \<open>The walk of \<^verbatim>\<open>cleanupSpan\<close> reads the parent of either kind of node.\<close>

definition entry_parent :: "readerObserver \<Rightarrow> scope_entry \<Rightarrow> EventID" where
  "entry_parent ro ev =
     (case ev of ScopeEntry sp \<Rightarrow> parent sp
               | SpanEntry a \<Rightarrow> parent (readerScope (spanHeap ro a)))"

function cleanupSpan :: "readerObserver \<Rightarrow> EventID \<Rightarrow> readerObserver \<times> panic option" where
  "cleanupSpan ro eid =
     (if eid = 0 then (ro, None)
      else case fmlookup (scopes ro) eid of
             None \<Rightarrow> (ro, Some (ScopeNotFound eid))
           | Some ev \<Rightarrow> cleanupSpan (ro\<lparr>scopes := fmdrop eid (scopes ro)\<rparr>) (entry_parent ro ev))"
  by pat_completeness auto
termination
proof (relation "measure (\<lambda>(ro, eid). card (fmdom' (scopes ro)))")
  show "wf (measure (\<lambda>(ro, eid). card (fmdom' (scopes ro))))"
    by simp
next
  fix ro :: readerObserver and eid :: EventID and ev
  assume "eid \<noteq> 0" and "fmlookup (scopes ro) eid = Some ev"
  then have "eid \<in> fmdom' (scopes ro)"
    by (simp add: fmdom'I)
  then have "card (fmdom' (scopes ro) - {eid}) < card (fmdom' (scopes ro))"
    by (intro card_Diff1_less finite_fmdom')
  then show "((ro\<lparr>scopes := fmdrop eid (scopes ro)\<rparr>, entry_parent ro ev), (ro, eid))
               \<in> measure (\<lambda>(ro, eid). card (fmdom' (scopes ro)))"
    by simp
qed

declare cleanupSpan.simps [simp del]

text \<open>
  \<^verbatim>\<open>orderedObserve\<close> starts from an output record that holds the event's time and sequence
  number, empty attributes, and the tags of the event's context when the context is not nil.
\<close>

definition newRead :: "observer_Event \<Rightarrow> Event" where
  "newRead event =
     \<lparr>evType = INVALID, evTime = obTime event, evSequence = obSequence event,
      evSpanContext = EmptySpanContext,
      evTags = (case obContext event of None \<Rightarrow> NewEmptyMap | Some ctx \<Rightarrow> FromContext ctx),
      evAttributes = NewEmptyMap, evStats = [], evParent = EmptySpanContext,
      evParentAttributes = None, evDuration = 0, evName = [], evMessage = [], evStatus = 0\<rparr>"

text \<open>
  The \<^verbatim>\<open>switch\<close> of \<^verbatim>\<open>orderedObserve\<close>, one definition for each case. A case returns the
  panic, or the new state with the output record to deliver; the record is \<open>None\<close> where the
  case leaves \<^verbatim>\<open>orderedObserve\<close> by \<^verbatim>\<open>return\<close>. Every panic of the switch is raised before
  the case writes a table or the span heap.
\<close>

type_synonym switch_result = "panic + (readerObserver \<times> Event option)"

definition observe_START_SPAN :: "readerObserver \<Rightarrow> observer_Event \<Rightarrow> Event \<Rightarrow> switch_result" where
  "observe_START_SPAN ro event read =
     (case obContext event of
        None \<Rightarrow> Inl NilContext
      | Some ctx \<Rightarrow>
         (case readScope ro (obScope event) of
            Inl p \<Rightarrow> Inl p
          | Inr (rattrs, _) \<Rightarrow>
             (let a = spanNext ro;
                  sp = \<lparr>name = obString event, start = obTime event,
                        startTags = FromContext ctx,
                        spanContext = SpanContext (obScope event), status = 0,
                        readerScope = \<lparr>span = Some a, parent = 0, attributes = rattrs\<rparr>\<rparr>;
                  read1 = read\<lparr>evName := name sp, evType := START_SPAN,
                               evSpanContext := spanContext sp, evAttributes := rattrs\<rparr>;
                  ro1 = ro\<lparr>spanHeap := (spanHeap ro)(a := sp), spanNext := Suc a,
                           scopes := fmupd (obSequence event) (SpanEntry a) (scopes ro)\<rparr>
              in if EventID (obParent event) = 0 \<and> HasTraceID (SpanContext (obParent event))
                 then Inr (ro1, Some (read1\<lparr>evParent := SpanContext (obParent event)\<rparr>))
                 else (case readScope ro (obParent event) of
                         Inl p \<Rightarrow> Inl p
                       | Inr (pattrs, None) \<Rightarrow> Inr (ro1, Some read1)
                       | Inr (pattrs, Some pa) \<Rightarrow>
                           Inr (ro1, Some (read1\<lparr>evParent := spanContext (spanHeap ro pa),
                                                  evParentAttributes := Some pattrs\<rparr>))))))"

definition observe_FINISH_SPAN :: "readerObserver \<Rightarrow> observer_Event \<Rightarrow> Event \<Rightarrow> switch_result" where
  "observe_FINISH_SPAN ro event read =
     (case readScope ro (obScope event) of
        Inl p \<Rightarrow> Inl p
      | Inr (attrs, None) \<Rightarrow> Inl (SpanNotFound (obScope event))
      | Inr (attrs, Some a) \<Rightarrow>
         (let sp = spanHeap ro a
          in Inr (ro, Some (read\<lparr>evName := name sp, evType := FINISH_SPAN,
                                  evAttributes := attrs,
                                  evDuration := time_Sub (obTime event) (start sp),
                                  evTags := startTags sp,
                                  evSpanContext := spanContext sp\<rparr>))))"

definition observe_MODIFY_ATTR :: "readerObserver \<Rightarrow> observer_Event \<Rightarrow> Event \<Rightarrow> switch_result" where
  "observe_MODIFY_ATTR ro event read =
     (let sid = obScope event
      in case (if EventID sid = 0 then Inr (NewEmptyMap, None)
               else case fmlookup (scopes ro) (EventID sid) of
                      None \<Rightarrow> Inl ParentScopeNotFound
                    | Some (ScopeEntry par) \<Rightarrow> Inr (attributes par, span par)
                    | Some (SpanEntry a) \<Rightarrow>
                        Inr (attributes (readerScope (spanHeap ro a)), Some a)) of
           Inl p \<Rightarrow> Inl p
         | Inr (m, sp) \<Rightarrow>
            (let sc = \<lparr>span = sp, parent = EventID sid,
                       attributes = Apply m \<lparr>SingleKV = obAttribute event,
                                              MultiKV = obAttributes event,
                                              SingleMutator = obMutator event,
                                              MultiMutator = obMutators event\<rparr>\<rparr>;
                 ro1 = ro\<lparr>scopes := fmupd (obSequence event) (ScopeEntry sc) (scopes ro)\<rparr>
             in if obType event = observer_NEW_SCOPE then Inr (ro1, None)
                else (let read1 = read\<lparr>evType := MODIFY_ATTR, evAttributes := attributes sc\<rparr>
                      in case sp of
                           None \<Rightarrow> Inr (ro1, Some read1)
                         | Some a \<Rightarrow>
                             Inr (ro1, Some (read1\<lparr>evSpanContext := spanContext (spanHeap ro a),
                                                    evTags := startTags (spanHeap ro a)\<rparr>)))))"

definition observe_NEW_MEASURE :: "readerObserver \<Rightarrow> observer_Event \<Rightarrow> switch_result" where
  "observe_NEW_MEASURE ro event =
     (let measure' = \<lparr>measureName = obString event\<rparr>
      in Inr (ro\<lparr>measures := fmupd (obSequence event) measure' (measures ro)\<rparr>, None))"

definition observe_NEW_METRIC :: "readerObserver \<Rightarrow> observer_Event \<Rightarrow> switch_result" where
  "observe_NEW_METRIC ro event =
     (case fmlookup (measures ro) (EventID (obScope event)) of
        None \<Rightarrow> Inl MetricMeasureNotFound
      | Some measureI \<Rightarrow>
         (let metric = \<lparr>readerMeasure = measureI\<rparr>
          in Inr (ro\<lparr>metrics := fmupd (obSequence event) metric (metrics ro)\<rparr>, None)))"

definition observe_ADD_EVENT :: "readerObserver \<Rightarrow> observer_Event \<Rightarrow> Event \<Rightarrow> switch_result" where
  "observe_ADD_EVENT ro event read =
     (let read1 = read\<lparr>evType := ADD_EVENT, evMessage := obString event\<rparr>
      in case readScope ro (obScope event) of
           Inl p \<Rightarrow> Inl p
         | Inr (attrs, sp) \<Rightarrow>
            (let read2 = read1\<lparr>evAttributes := Apply attrs (MapUpdate_MultiKV (obAttributes event))\<rparr>
             in case sp of
                  None \<Rightarrow> Inr (ro, Some read2)
                | Some a \<Rightarrow> Inr (ro, Some (read2\<lparr>evSpanContext := spanContext (spanHeap ro a)\<rparr>))))"

definition observe_RECORD_STATS :: "readerObserver \<Rightarrow> observer_Event \<Rightarrow> Event \<Rightarrow> switch_result" where
  "observe_RECORD_STATS ro event read =
     (let read1 = read\<lparr>evType := RECORD_STATS\<rparr>
      in case readScope ro (obScope event) of
           Inl p \<Rightarrow> Inl p
         | Inr (_, sp) \<Rightarrow>
            (let read2 = (case sp of None \<Rightarrow> read1
                                   | Some a \<Rightarrow> read1\<lparr>evSpanContext := spanContext (spanHeap ro a)\<rparr>);
                 read3 = fold (\<lambda>es r. addMeasurement ro r es) (obStats event) read2;
                 read4 = (if smMeasure (obStat event) \<noteq> None
                          then addMeasurement ro read3 (obStat event) else read3)
             in Inr (ro, Some read4)))"

definition observe_SET_STATUS :: "readerObserver \<Rightarrow> observer_Event \<Rightarrow> Event \<Rightarrow> switch_result" where
  "observe_SET_STATUS ro event read =
     (let read1 = read\<lparr>evType := SET_STATUS, evStatus := obStatus event\<rparr>
      in case readScope ro (obScope event) of
           Inl p \<Rightarrow> Inl p
         | Inr (_, None) \<Rightarrow> Inr (ro, Some read1)
         | Inr (_, Some a) \<Rightarrow>
            (let sp = (spanHeap ro a)\<lparr>status := obStatus event\<rparr>
             in Inr (ro\<lparr>spanHeap := (spanHeap ro)(a := sp)\<rparr>,
                     Some (read1\<lparr>evSpanContext := spanContext sp\<rparr>))))"

definition observe_switch :: "readerObserver \<Rightarrow> observer_Event \<Rightarrow> switch_result" where
  "observe_switch ro event =
     (let read = newRead event
      in case obType event of
           observer_START_SPAN \<Rightarrow> observe_START_SPAN ro event read
         | observer_FINISH_SPAN \<Rightarrow> observe_FINISH_SPAN ro event read
         | observer_NEW_SCOPE \<Rightarrow> observe_MODIFY_ATTR ro event read
         | observer_MODIFY_ATTR \<Rightarrow> observe_MODIFY_ATTR ro event read
         | observer_NEW_MEASURE \<Rightarrow> observe_NEW_MEASURE ro event
         | observer_NEW_METRIC \<Rightarrow> observe_NEW_METRIC ro event
         | observer_ADD_EVENT \<Rightarrow> observe_ADD_EVENT ro event read
         | observer_RECORD_STATS \<Rightarrow> observe_RECORD_STATS ro event read
         | observer_SET_STATUS \<Rightarrow> observe_SET_STATUS ro event read
         | _ \<Rightarrow> Inl (UnhandledCase (obType event)))"

text \<open>The loop \<^verbatim>\<open>for _, reader := range ro.readers { reader.Read(read) }\<close>.\<close>

definition Read :: "Reader \<Rightarrow> Event \<Rightarrow> readerObserver \<Rightarrow> readerObserver" where
  "Read reader read ro = ro\<lparr>delivered := delivered ro @ [(reader, read)]\<rparr>"

definition deliver :: "readerObserver \<Rightarrow> Event \<Rightarrow> readerObserver" where
  "deliver ro read = fold (\<lambda>reader. Read reader read) (readers ro) ro"

text \<open>
  \<^verbatim>\<open>orderedObserve\<close>: the switch, the delivery to the readers, and the cleanup after a
  \<^verbatim>\<open>FINISH_SPAN\<close>. The result is the state the call leaves behind and the panic that ended
  it, if any.
\<close>

definition orderedObserve :: "readerObserver \<Rightarrow> observer_Event \<Rightarrow> readerObserver \<times> panic option" where
  "orderedObserve ro event =
     (case observe_switch ro event of
        Inl p \<Rightarrow> (ro, Some p)
      | Inr (ro1, None) \<Rightarrow> (ro1, None)
      | Inr (ro1, Some read) \<Rightarrow>
         (let ro2 = deliver ro1 read
          in if obType event = observer_FINISH_SPAN
             then cleanupSpan ro2 (EventID (obScope event))
             else (ro2, None)))"

definition Observe :: "readerObserver \<Rightarrow> observer_Event \<Rightarrow> readerObserver \<times> panic option" where
  "Observe ro event = orderedObserve ro event"

text \<open>A stream of events is observed in order, up to the first panic.\<close>

fun observe_all :: "readerObserver \<Rightarrow> observer_Event list \<Rightarrow> readerObserver \<times> panic option" where
  "observe_all ro [] = (ro, None)"
| "observe_all ro (event # events) =
     (case Observe ro event of
        (ro1, None) \<Rightarrow> observe_all ro1 events
      | (ro1, Some p) \<Rightarrow> (ro1, Some p))"

section \<open>Observers of the reconstructed state\<close>

text \<open>The snapshot and the owning span of a node of the scope table, as \<^verbatim>\<open>readScope\<close> reads them.\<close>

definition entry_attributes :: "readerObserver \<Rightarrow> scope_entry \<Rightarrow> tag_map" where
  "entry_attributes ro ev =
     (case ev of ScopeEntry sp \<Rightarrow> attributes sp
               | SpanEntry a \<Rightarrow> attributes (readerScope (spanHeap ro a)))"

definition entry_span :: "scope_entry \<Rightarrow> addr option" where
  "entry_span ev = (case ev of ScopeEntry sp \<Rightarrow> span sp | SpanEntry a \<Rightarrow> Some a)"

text \<open>
  \<open>is_chain ro eid ks\<close>: \<open>ks\<close> are the identifiers met from \<open>eid\<close> along the parent pointers
  of the scope table, down to 0.
\<close>

fun is_chain :: "readerObserver \<Rightarrow> EventID \<Rightarrow> EventID list \<Rightarrow> bool" where
  "is_chain ro eid [] \<longleftrightarrow> eid = 0"
| "is_chain ro eid (k # ks) \<longleftrightarrow>
     eid = k \<and> k \<noteq> 0 \<and>
     (case fmlookup (scopes ro) k of
        None \<Rightarrow> False
      | Some ev \<Rightarrow> is_chain ro (entry_parent ro ev) ks)"

text \<open>The part of a span object that is never written after \<^verbatim>\<open>START_SPAN\<close>: all but the status.\<close>

definition frozen :: "readerSpan \<Rightarrow> readerSpan" where
  "frozen sp = sp\<lparr>status := 0\<rparr>"




section \<open>The tracer of the streaming SDK\<close>

text \<open>
  Modelled from the spec: the event sequencer of package exporter/observer (not under src/).
  \<^verbatim>\<open>observer.Record\<close> gives the event the next sequence number, which is unique and strictly
  increasing, hands the event to the stream, and returns the number. \<^verbatim>\<open>observer.NewScope\<close>
  emits a \<^verbatim>\<open>NEW_SCOPE\<close> event chained off the given scope and returns the scope reference
  of the new scope: the event's identifier, with the span context of the scope it extends.
  \<^verbatim>\<open>rand.Uint64\<close> takes the next value of the random source.
\<close>

record sdk_state =
  lastEventID :: EventID
  stream :: "observer_Event list"
  randSource :: "nat \<Rightarrow> uint64"
  randPos :: nat

definition zero_Event :: observer_Event where
  "zero_Event =
     \<lparr>obType = observer_INVALID, obTime = 0, obSequence = 0, obContext = None,
      obScope = EmptyScopeID, obParent = EmptyScopeID, obString = [],
      obAttribute = None, obAttributes = [], obMutator = None, obMutators = [],
      obStats = [], obStat = \<lparr>smMeasure = None, smValue = 0\<rparr>, obStatus = 0\<rparr>"

definition NextEventID :: "sdk_state \<Rightarrow> EventID \<times> sdk_state" where
  "NextEventID w = (Suc (lastEventID w), w\<lparr>lastEventID := Suc (lastEventID w)\<rparr>)"

definition Record :: "observer_Event \<Rightarrow> sdk_state \<Rightarrow> EventID \<times> sdk_state" where
  "Record event w =
     (let (n, w1) = NextEventID w;
          event1 = event\<lparr>obSequence := n\<rparr>
      in (n, w1\<lparr>stream := stream w1 @ [event1]\<rparr>))"

definition NewScope :: "ScopeID \<Rightarrow> KeyValue list \<Rightarrow> sdk_state \<Rightarrow> ScopeID \<times> sdk_state" where
  "NewScope parentScope attrs w =
     (let (eventID, w1) = Record (zero_Event\<lparr>obType := observer_NEW_SCOPE,
                                              obScope := parentScope,
                                              obAttributes := attrs\<rparr>) w
      in (\<lparr>EventID = eventID, SpanContext = SpanContext parentScope\<rparr>, w1))"

definition rand_Uint64 :: "sdk_state \<Rightarrow> uint64 \<times> sdk_state" where
  "rand_Uint64 w = (randSource w (randPos w), w\<lparr>randPos := Suc (randPos w)\<rparr>)"

text \<open>The keys of trace.go.\<close>

definition ServiceKey :: Key where
  "ServiceKey = key_New ''service''"

definition ComponentKey :: Key where
  "ComponentKey = key_New ''component''"

definition ErrorKey :: Key where
  "ErrorKey = key_New ''error''"

definition SpanIDKey :: Key where
  "SpanIDKey = key_New ''span_id''"

definition TraceIDKey :: Key where
  "TraceIDKey = key_New ''trace_id''"

definition MessageKey :: Key where
  "MessageKey = WithDescription ''message text: info, error, etc'' (key_New ''message'')"

definition New :: tracer where
  "New = \<lparr>resources = 0\<rparr>"

definition WithResources :: "tracer \<Rightarrow> KeyValue list \<Rightarrow> sdk_state \<Rightarrow> tracer \<times> sdk_state" where
  "WithResources t attrs w =
     (let (s, w1) = NewScope \<lparr>EventID = resources t, SpanContext = EmptySpanContext\<rparr> attrs w
      in (\<lparr>resources = EventID s\<rparr>, w1))"

definition WithComponent :: "tracer \<Rightarrow> string \<Rightarrow> sdk_state \<Rightarrow> tracer \<times> sdk_state" where
  "WithComponent t nm w = WithResources t [Key_String ComponentKey nm] w"

definition WithService :: "tracer \<Rightarrow> string \<Rightarrow> sdk_state \<Rightarrow> tracer \<times> sdk_state" where
  "WithService t nm w = WithResources t [Key_String ServiceKey nm] w"

text \<open>
  Modelled from the spec: the span options of package api/trace (not under src/): an explicit
  parent reference, a start time and initial attributes; an option is a function that sets
  them. \<^verbatim>\<open>CurrentSpan\<close> is the span active in the ambient context, \<open>None\<close> when there is
  none, and then its span context is the empty one; \<^verbatim>\<open>SetCurrentSpan\<close> makes a span the
  active one.
\<close>

record Reference =
  refSpanContext :: SpanContext

record SpanOptions =
  Reference :: Reference
  StartTime :: time
  Attributes :: "KeyValue list"

type_synonym SpanOption = "SpanOptions \<Rightarrow> SpanOptions"

definition zero_SpanOptions :: SpanOptions where
  "zero_SpanOptions =
     \<lparr>Reference = \<lparr>refSpanContext = EmptySpanContext\<rparr>, StartTime = 0, Attributes = []\<rparr>"

definition CurrentSpan :: "Context \<Rightarrow> span option" where
  "CurrentSpan ctx = ctxSpan ctx"

definition span_SpanContext :: "span option \<Rightarrow> SpanContext" where
  "span_SpanContext sp = (case sp of None \<Rightarrow> EmptySpanContext | Some s \<Rightarrow> SpanContext (initial s))"

definition SetCurrentSpan :: "Context \<Rightarrow> span \<Rightarrow> Context" where
  "SetCurrentSpan ctx sp = ctx\<lparr>ctxSpan := Some sp\<rparr>"

text \<open>\<^verbatim>\<open>tracer.Start\<close> (trace.go).\<close>

definition Start ::
  "tracer \<Rightarrow> Context \<Rightarrow> string \<Rightarrow> SpanOption list \<Rightarrow> sdk_state \<Rightarrow> (Context \<times> span) \<times> sdk_state" where
  "Start t ctx nm opts w =
     (let (sid, w1) = rand_Uint64 w;
          child0 = EmptySpanContext\<lparr>SpanID := sid\<rparr>;
          so = fold (\<lambda>opt so. opt so) opts zero_SpanOptions;
          parentScope =
            (if HasTraceID (refSpanContext (Reference so))
             then EmptyScopeID\<lparr>SpanContext := refSpanContext (Reference so)\<rparr>
             else EmptyScopeID\<lparr>SpanContext := span_SpanContext (CurrentSpan ctx)\<rparr>);
          (child, w2) =
            (if HasTraceID (SpanContext parentScope)
             then (let parent = SpanContext parentScope
                   in (child0\<lparr>TraceID := \<lparr>High = High (TraceID parent),
                                             Low = Low (TraceID parent)\<rparr>\<rparr>, w1))
             else (let (h, wa) = rand_Uint64 w1;
                       (l, wb) = rand_Uint64 wa
                   in (child0\<lparr>TraceID := \<lparr>High = h, Low = l\<rparr>\<rparr>, wb)));
          childScope = \<lparr>EventID = resources t, SpanContext = child\<rparr>;
          (scope, w3) = NewScope childScope (Attributes so) w2;
          (eventID, w4) = Record (zero_Event\<lparr>obTime := StartTime so,
                                              obType := observer_START_SPAN,
                                              obScope := scope,
                                              obContext := Some ctx,
                                              obParent := parentScope,
                                              obString := nm\<rparr>) w3;
          sp = \<lparr>span_tracer = t, initial = \<lparr>EventID = eventID, SpanContext = child\<rparr>\<rparr>
      in ((SetCurrentSpan ctx sp, sp), w4))"

text \<open>
  Modelled from the spec: the operations of a started span (span.go, not under src/). Each
  emits one event of its type that carries the span's own scope reference.
\<close>

definition span_SetAttribute :: "span \<Rightarrow> KeyValue \<Rightarrow> sdk_state \<Rightarrow> sdk_state" where
  "span_SetAttribute sp kv w =
     snd (Record (zero_Event\<lparr>obType := observer_MODIFY_ATTR, obScope := initial sp,
                              obAttribute := Some kv\<rparr>) w)"

definition span_Event :: "span \<Rightarrow> Context \<Rightarrow> string \<Rightarrow> KeyValue list \<Rightarrow> sdk_state \<Rightarrow> sdk_state" where
  "span_Event sp ctx msg attrs w =
     snd (Record (zero_Event\<lparr>obType := observer_ADD_EVENT, obScope := initial sp,
                              obContext := Some ctx, obString := msg,
                              obAttributes := attrs\<rparr>) w)"

definition span_Finish :: "span \<Rightarrow> sdk_state \<Rightarrow> sdk_state" where
  "span_Finish sp w =
     snd (Record (zero_Event\<lparr>obType := observer_FINISH_SPAN, obScope := initial sp\<rparr>) w)"

text \<open>
  \<^verbatim>\<open>tracer.WithSpan\<close> (trace.go). A Go \<^verbatim>\<open>error\<close> is known by its message, and nil is
  \<open>None\<close>. The body returns or panics; the deferred \<^verbatim>\<open>span.Finish()\<close> runs either way.
\<close>

type_synonym error = string

datatype call_result = Returns "error option" | Panics string

type_synonym body = "Context \<Rightarrow> sdk_state \<Rightarrow> call_result \<times> sdk_state"

definition WithSpan :: "tracer \<Rightarrow> Context \<Rightarrow> string \<Rightarrow> body \<Rightarrow> sdk_state \<Rightarrow> call_result \<times> sdk_state" where
  "WithSpan t ctx nm body w =
     (let ((ctx1, sp), w1) = Start t ctx nm [] w;
          (r, w2) = body ctx1 w1
      in case r of
           Returns (Some err) \<Rightarrow>
             (let w3 = span_SetAttribute sp (Key_Bool ErrorKey True) w2;
                  w4 = span_Event sp ctx1 ''span error'' [Key_String MessageKey err] w3
              in (Returns (Some err), span_Finish sp w4))
         | Returns None \<Rightarrow> (Returns None, span_Finish sp w2)
         | Panics v \<Rightarrow> (Panics v, span_Finish sp w2))"

text \<open>
  The events of the stream that the theorems below name: the \<^verbatim>\<open>NEW_SCOPE\<close> event of
  \<^verbatim>\<open>WithResources\<close>, and the events that \<^verbatim>\<open>WithSpan\<close> emits after the body: the error
  attribute and the log event, and the \<^verbatim>\<open>FINISH_SPAN\<close> event.
\<close>

definition scope_event :: "EventID \<Rightarrow> KeyValue list \<Rightarrow> EventID \<Rightarrow> observer_Event" where
  "scope_event parentID attrs n =
     zero_Event\<lparr>obType := observer_NEW_SCOPE,
       obScope := \<lparr>EventID = parentID, SpanContext = EmptySpanContext\<rparr>,
       obAttributes := attrs, obSequence := n\<rparr>"

definition error_events :: "span \<Rightarrow> Context \<Rightarrow> error \<Rightarrow> EventID \<Rightarrow> observer_Event list" where
  "error_events sp ctx err n =
     [zero_Event\<lparr>obType := observer_MODIFY_ATTR, obScope := initial sp,
        obAttribute := Some (Key_Bool ErrorKey True), obSequence := Suc n\<rparr>,
      zero_Event\<lparr>obType := observer_ADD_EVENT, obScope := initial sp,
        obContext := Some ctx, obString := ''span error'',
        obAttributes := [Key_String MessageKey err], obSequence := Suc (Suc n)\<rparr>]"

definition finish_event :: "span \<Rightarrow> EventID \<Rightarrow> observer_Event" where
  "finish_event sp n =
     zero_Event\<lparr>obType := observer_FINISH_SPAN, obScope := initial sp, obSequence := n\<rparr>"

section \<open>The global tracing configuration\<close>

text \<open>
  \<^verbatim>\<open>Config\<close> (config.go). The sampler and the identifier generator are interface values,
  \<open>None\<close> is nil; the caps are Go \<^verbatim>\<open>int\<close>s, which are only compared with 0.
\<close>

record ('s, 'g) Config =
  DefaultSampler :: "'s option"
  IDGenerator :: "'g option"
  MaxEventsPerSpan :: int
  MaxAttributesPerSpan :: int
  MaxLinksPerSpan :: int

definition DefaultMaxEventsPerSpan :: int where
  "DefaultMaxEventsPerSpan = 128"

definition DefaultMaxAttributesPerSpan :: int where
  "DefaultMaxAttributesPerSpan = 32"

definition DefaultMaxLinksPerSpan :: int where
  "DefaultMaxLinksPerSpan = 32"

text \<open>
  The global \<^verbatim>\<open>config\<close> is an atomic value that holds a pointer to a \<^verbatim>\<open>Config\<close>, or nothing
  before the first store; then the type assertion of \<^verbatim>\<open>ApplyConfig\<close> panics. The mutex
  serialises the writers and has no part in the result of one call.
\<close>

datatype config_panic = NilConfig

definition ApplyConfig ::
  "('s, 'g) Config \<Rightarrow> ('s, 'g) Config option \<Rightarrow> config_panic + ('s, 'g) Config option" where
  "ApplyConfig cfg config =
     (case config of
        None \<Rightarrow> Inl NilConfig
      | Some c \<Rightarrow>
         (let c1 = (if DefaultSampler cfg \<noteq> None
                    then c\<lparr>DefaultSampler := DefaultSampler cfg\<rparr> else c);
              c2 = (if IDGenerator cfg \<noteq> None
                    then c1\<lparr>IDGenerator := IDGenerator cfg\<rparr> else c1);
              c3 = (if MaxEventsPerSpan cfg > 0
                    then c2\<lparr>MaxEventsPerSpan := MaxEventsPerSpan cfg\<rparr> else c2);
              c4 = (if MaxAttributesPerSpan cfg > 0
                    then c3\<lparr>MaxAttributesPerSpan := MaxAttributesPerSpan cfg\<rparr> else c3);
              c5 = (if MaxLinksPerSpan cfg > 0
                    then c4\<lparr>MaxLinksPerSpan := MaxLinksPerSpan cfg\<rparr> else c4)
          in Inr (Some c5)))"

section \<open>A small run of the reader\<close>

text \<open>
  A resource scope with attribute x, a span \<open>op\<close> started under it at time 100, an attribute
  y set on the span, and the span finished at time 250, observed by two readers.
\<close>

definition ex_sc :: SpanContext where
  "ex_sc = \<lparr>TraceID = \<lparr>High = 7, Low = 9\<rparr>, SpanID = 5\<rparr>"

definition ex_ctx :: Context where
  "ex_ctx = \<lparr>ctxSpan = None, ctxTags = fmupd (key_New ''env'') (STRING ''prod'') fmempty\<rparr>"

definition ex_new_scope :: observer_Event where
  "ex_new_scope = zero_Event\<lparr>obType := observer_NEW_SCOPE, obSequence := 1,
      obAttributes := [Key_String (key_New ''x'') ''1'']\<rparr>"

definition ex_start :: observer_Event where
  "ex_start = zero_Event\<lparr>obType := observer_START_SPAN, obTime := 100, obSequence := 2,
      obContext := Some ex_ctx, obScope := \<lparr>EventID = 1, SpanContext = ex_sc\<rparr>,
      obString := ''op''\<rparr>"

definition ex_modify :: observer_Event where
  "ex_modify = zero_Event\<lparr>obType := observer_MODIFY_ATTR, obSequence := 3,
      obScope := \<lparr>EventID = 2, SpanContext = ex_sc\<rparr>,
      obAttribute := Some (Key_String (key_New ''y'') ''2'')\<rparr>"

definition ex_finish :: observer_Event where
  "ex_finish = zero_Event\<lparr>obType := observer_FINISH_SPAN, obTime := 250, obSequence := 4,
      obScope := \<lparr>EventID = 2, SpanContext = ex_sc\<rparr>\<rparr>"

definition ex_finish_last :: observer_Event where
  "ex_finish_last = ex_finish\<lparr>obScope := \<lparr>EventID = 3, SpanContext = ex_sc\<rparr>\<rparr>"

definition ex_finish_far :: observer_Event where
  "ex_finish_far = ex_finish\<lparr>obTime := 10000000000000000100\<rparr>"

definition ex_new_measure :: observer_Event where
  "ex_new_measure = zero_Event\<lparr>obType := observer_NEW_MEASURE, obSequence := 5,
      obScope := \<lparr>EventID = 7, SpanContext = EmptySpanContext\<rparr>, obString := ''latency''\<rparr>"

definition ex_new_metric :: observer_Event where
  "ex_new_metric = zero_Event\<lparr>obType := observer_NEW_METRIC, obSequence := 6\<rparr>"

definition ex_add_event :: observer_Event where
  "ex_add_event = zero_Event\<lparr>obType := observer_ADD_EVENT, obSequence := 8,
      obScope := \<lparr>EventID = 7, SpanContext = EmptySpanContext\<rparr>, obString := ''hello''\<rparr>"




definition ex_ro0 :: readerObserver where
  "ex_ro0 = NewReaderObserver [10, 20]"

definition ex_ro1 :: readerObserver where
  "ex_ro1 = fst (orderedObserve ex_ro0 ex_new_scope)"

definition ex_ro2 :: readerObserver where
  "ex_ro2 = fst (orderedObserve ex_ro1 ex_start)"

definition ex_ro3 :: readerObserver where
  "ex_ro3 = fst (orderedObserve ex_ro2 ex_modify)"

definition ex_x1 :: tag_map where
  "ex_x1 = fmupd (key_New ''x'') (STRING ''1'') fmempty"

definition ex_span :: readerSpan where
  "ex_span = \<lparr>name = ''op'', start = 100,
      startTags = fmupd (key_New ''env'') (STRING ''prod'') fmempty,
      spanContext = ex_sc, status = 0,
      readerScope = \<lparr>span = Some 0, parent = 0, attributes = ex_x1\<rparr>\<rparr>"

definition ex_finish_read :: Event where
  "ex_finish_read = (newRead ex_finish)\<lparr>evName := ''op'', evType := FINISH_SPAN,
      evAttributes := ex_x1, evDuration := 150,
      evTags := fmupd (key_New ''env'') (STRING ''prod'') fmempty,
      evSpanContext := ex_sc\<rparr>"

section \<open>A small run of the tracer\<close>

text \<open>
  A root span B started with attribute x, and a span C started while B is the current span
  of the context; the random source yields 1, 2, 3, ... The events of the two calls are
  observed by one reader. A span \<open>op\<close> for \<^verbatim>\<open>WithSpan\<close>, with a body that fails and a body
  that panics. A configuration and an override of it.
\<close>

definition ex_w0 :: sdk_state where
  "ex_w0 = \<lparr>lastEventID = 0, stream = [], randSource = (\<lambda>n. of_nat (Suc n)), randPos = 0\<rparr>"

definition ex_config :: "(string, string) Config" where
  "ex_config = \<lparr>DefaultSampler = Some ''always'', IDGenerator = Some ''default'',
      MaxEventsPerSpan = DefaultMaxEventsPerSpan,
      MaxAttributesPerSpan = DefaultMaxAttributesPerSpan,
      MaxLinksPerSpan = DefaultMaxLinksPerSpan\<rparr>"

definition ex_override :: "(string, string) Config" where
  "ex_override = \<lparr>DefaultSampler = None, IDGenerator = Some ''custom'',
      MaxEventsPerSpan = 0, MaxAttributesPerSpan = - 5, MaxLinksPerSpan = 64\<rparr>"

definition ex_ctx0 :: Context where
  "ex_ctx0 = \<lparr>ctxSpan = None, ctxTags = fmempty\<rparr>"

definition ex_with_x :: SpanOption where
  "ex_with_x = (\<lambda>so. so\<lparr>Attributes := [Key_String (key_New ''x'') ''1'']\<rparr>)"

definition ex_B :: "(Context \<times> span) \<times> sdk_state" where
  "ex_B = Start New ex_ctx0 ''B'' [ex_with_x] ex_w0"

definition ex_C :: "(Context \<times> span) \<times> sdk_state" where
  "ex_C = Start New (fst (fst ex_B)) ''C'' [] (snd ex_B)"

definition ex_scB :: SpanContext where
  "ex_scB = \<lparr>TraceID = \<lparr>High = 2, Low = 3\<rparr>, SpanID = 1\<rparr>"

definition ex_scC :: SpanContext where
  "ex_scC = \<lparr>TraceID = \<lparr>High = 2, Low = 3\<rparr>, SpanID = 4\<rparr>"

definition ex_spanB :: span where
  "ex_spanB = \<lparr>span_tracer = New, initial = \<lparr>EventID = 2, SpanContext = ex_scB\<rparr>\<rparr>"

definition ex_ctxB :: Context where
  "ex_ctxB = \<lparr>ctxSpan = Some ex_spanB, ctxTags = fmempty\<rparr>"

definition ex_eB0 :: observer_Event where
  "ex_eB0 = zero_Event\<lparr>obType := observer_NEW_SCOPE, obSequence := 1,
        obScope := \<lparr>EventID = 0, SpanContext = ex_scB\<rparr>,
        obAttributes := [Key_String (key_New ''x'') ''1'']\<rparr>"

definition ex_eB1 :: observer_Event where
  "ex_eB1 = zero_Event\<lparr>obType := observer_START_SPAN, obSequence := 2,
        obScope := \<lparr>EventID = 1, SpanContext = ex_scB\<rparr>,
        obContext := Some ex_ctx0, obString := ''B''\<rparr>"

definition ex_eC0 :: observer_Event where
  "ex_eC0 = zero_Event\<lparr>obType := observer_NEW_SCOPE, obSequence := 3,
        obScope := \<lparr>EventID = 0, SpanContext = ex_scC\<rparr>\<rparr>"

definition ex_eC1 :: observer_Event where
  "ex_eC1 = zero_Event\<lparr>obType := observer_START_SPAN, obSequence := 4,
        obScope := \<lparr>EventID = 3, SpanContext = ex_scC\<rparr>,
        obContext := Some ex_ctxB,
        obParent := \<lparr>EventID = 0, SpanContext = ex_scB\<rparr>, obString := ''C''\<rparr>"

definition ex_spanC :: span where
  "ex_spanC = \<lparr>span_tracer = New, initial = \<lparr>EventID = 4, SpanContext = ex_scC\<rparr>\<rparr>"

definition ex_r1 :: readerObserver where
  "ex_r1 = fst (orderedObserve (NewReaderObserver [10]) ex_eB0)"

definition ex_r2 :: readerObserver where
  "ex_r2 = fst (orderedObserve ex_r1 ex_eB1)"

definition ex_r3 :: readerObserver where
  "ex_r3 = fst (orderedObserve ex_r2 ex_eC0)"

definition ex_span_op :: span where
  "ex_span_op = \<lparr>span_tracer = New,
      initial = \<lparr>EventID = 2, SpanContext = \<lparr>TraceID = \<lparr>High = 2, Low = 3\<rparr>, SpanID = 1\<rparr>\<rparr>\<rparr>"

definition ex_ctx_op :: Context where
  "ex_ctx_op = \<lparr>ctxSpan = Some ex_span_op, ctxTags = fmempty\<rparr>"

definition ex_w_op :: sdk_state where
  "ex_w_op = snd (Start New ex_ctx0 ''op'' [] ex_w0)"

definition ex_body_fails :: body where
  "ex_body_fails = (\<lambda>ctx w. (Returns (Some ''boom''), w))"

definition ex_body_panics :: body where
  "ex_body_panics = (\<lambda>ctx w. (Panics ''index out of range'', w))"

section \<open>Properties of the reader\<close>

subsection \<open>Delivery and evaluation of the small run\<close>

lemmas ex_events = zero_Event_def ex_new_scope_def ex_start_def ex_modify_def ex_finish_def
  ex_ctx_def EmptyScopeID_def EmptySpanContext_def

lemmas observe_defs = orderedObserve_def observe_switch_def observe_START_SPAN_def
  observe_FINISH_SPAN_def observe_MODIFY_ATTR_def observe_NEW_MEASURE_def
  observe_NEW_METRIC_def observe_ADD_EVENT_def observe_RECORD_STATS_def
  observe_SET_STATUS_def readScope_def newRead_def Let_def

lemma fold_Read_delivered:
  "delivered (fold (\<lambda>reader. Read reader read) rs ro) =
     delivered ro @ map (\<lambda>reader. (reader, read)) rs"
  by (induction rs arbitrary: ro) (simp_all add: Read_def)

lemma fold_Read_fields:
  "scopes (fold (\<lambda>reader. Read reader read) rs ro) = scopes ro \<and>
   measures (fold (\<lambda>reader. Read reader read) rs ro) = measures ro \<and>
   metrics (fold (\<lambda>reader. Read reader read) rs ro) = metrics ro \<and>
   spanHeap (fold (\<lambda>reader. Read reader read) rs ro) = spanHeap ro \<and>
   spanNext (fold (\<lambda>reader. Read reader read) rs ro) = spanNext ro \<and>
   readers (fold (\<lambda>reader. Read reader read) rs ro) = readers ro"
  by (induction rs arbitrary: ro) (simp_all add: Read_def)

lemma delivered_deliver:
  "delivered (deliver ro read) = delivered ro @ map (\<lambda>reader. (reader, read)) (readers ro)"
  by (simp add: deliver_def fold_Read_delivered)

lemma deliver_fields [simp]:
  "scopes (deliver ro read) = scopes ro"
  "measures (deliver ro read) = measures ro"
  "metrics (deliver ro read) = metrics ro"
  "spanHeap (deliver ro read) = spanHeap ro"
  "spanNext (deliver ro read) = spanNext ro"
  "readers (deliver ro read) = readers ro"
  by (simp_all add: deliver_def fold_Read_fields)

lemma ex_ro1_fields:
  "scopes ex_ro1 = fmupd 1 (ScopeEntry \<lparr>span = None, parent = 0, attributes = ex_x1\<rparr>) fmempty"
  "spanNext ex_ro1 = 0" "readers ex_ro1 = [10, 20]" "delivered ex_ro1 = []"
  "measures ex_ro1 = fmempty"
  by (simp_all add: ex_ro1_def ex_ro0_def NewReaderObserver_def ex_events observe_defs
      Apply_def upsert_def Key_String_def NewEmptyMap_def ex_x1_def)

lemma ex_ro2_fields:
  "scopes ex_ro2 = fmupd 2 (SpanEntry 0) (scopes ex_ro1)"
  "spanNext ex_ro2 = 1" "readers ex_ro2 = [10, 20]"
  "spanHeap ex_ro2 0 = ex_span"
  by (simp_all add: ex_ro2_def ex_ro1_fields ex_events observe_defs HasTraceID_def
      FromContext_def ex_span_def)

lemma ex_ro3_run:
  "observe_all ex_ro2 [ex_modify] = (ex_ro3, None)"
  by (simp add: ex_ro3_def Observe_def ex_ro2_fields ex_ro1_fields ex_events observe_defs)

lemma ex_ro3_fields:
  "fmlookup (scopes ex_ro3) 2 = Some (SpanEntry 0)"
  "fmlookup (scopes ex_ro3) 3 =
     Some (ScopeEntry \<lparr>span = Some 0, parent = 2,
             attributes = fmupd (key_New ''y'') (STRING ''2'') ex_x1\<rparr>)"
  "fmdom' (scopes ex_ro3) = {1, 2, 3}"
  "readers ex_ro3 = [10, 20]" "spanHeap ex_ro3 0 = ex_span"
  by (auto simp add: ex_ro3_def ex_ro2_fields ex_ro1_fields ex_events observe_defs ex_span_def
      Apply_def upsert_def Key_String_def)

lemma ex_run_all:
  "observe_all (NewReaderObserver [10, 20]) [ex_new_scope, ex_start, ex_modify] = (ex_ro3, None)"
proof -
  have 1: "orderedObserve ex_ro0 ex_new_scope = (ex_ro1, None)"
    by (simp add: ex_ro1_def ex_ro0_def ex_events observe_defs NewReaderObserver_def)
  have 2: "orderedObserve ex_ro1 ex_start = (ex_ro2, None)"
    by (simp add: ex_ro2_def ex_ro1_fields ex_events observe_defs HasTraceID_def)
  show ?thesis
    using 1 2 ex_ro3_run by (simp add: Observe_def ex_ro0_def)
qed

subsection \<open>What one event and a run of events leave unchanged\<close>

lemma entry_parent_scopes [simp]:
  "entry_parent (ro\<lparr>scopes := m\<rparr>) ev = entry_parent ro ev"
  by (simp add: entry_parent_def split: scope_entry.splits)

lemma cleanupSpan_fields:
  "readers (fst (cleanupSpan ro eid)) = readers ro \<and>
   measures (fst (cleanupSpan ro eid)) = measures ro \<and>
   metrics (fst (cleanupSpan ro eid)) = metrics ro \<and>
   spanHeap (fst (cleanupSpan ro eid)) = spanHeap ro \<and>
   spanNext (fst (cleanupSpan ro eid)) = spanNext ro \<and>
   delivered (fst (cleanupSpan ro eid)) = delivered ro"
proof (induction ro eid rule: cleanupSpan.induct)
  case (1 ro eid)
  show ?case
  proof (cases "eid = 0")
    case True
    then show ?thesis by (simp add: cleanupSpan.simps)
  next
    case False
    show ?thesis
    proof (cases "fmlookup (scopes ro) eid")
      case None
      with False show ?thesis by (simp add: cleanupSpan.simps)
    next
      case (Some ev)
      from "1.IH" [OF False Some] False Some show ?thesis
        by (simp add: cleanupSpan.simps [of ro eid])
    qed
  qed
qed

lemma cleanupSpan_lookup:
  "fmlookup (scopes (fst (cleanupSpan ro eid))) k = None \<or>
   fmlookup (scopes (fst (cleanupSpan ro eid))) k = fmlookup (scopes ro) k"
proof (induction ro eid rule: cleanupSpan.induct)
  case (1 ro eid)
  show ?case
  proof (cases "eid = 0")
    case True
    then show ?thesis by (simp add: cleanupSpan.simps)
  next
    case False
    show ?thesis
    proof (cases "fmlookup (scopes ro) eid")
      case None
      with False show ?thesis by (simp add: cleanupSpan.simps)
    next
      case (Some ev)
      from "1.IH" [OF False Some] False Some show ?thesis
        by (auto simp: cleanupSpan.simps [of ro eid] split: if_splits)
    qed
  qed
qed

lemma switch_START_SPAN:
  assumes "observe_START_SPAN ro event read = Inr (ro1, r)"
  shows "spanNext ro1 = Suc (spanNext ro) \<and>
         spanHeap ro1 = (spanHeap ro)(spanNext ro := spanHeap ro1 (spanNext ro)) \<and>
         scopes ro1 = fmupd (obSequence event) (SpanEntry (spanNext ro)) (scopes ro) \<and>
         readers ro1 = readers ro \<and> delivered ro1 = delivered ro \<and>
         measures ro1 = measures ro \<and> metrics ro1 = metrics ro \<and> r \<noteq> None"
  using assms
  by (auto simp: observe_START_SPAN_def Let_def split: option.splits sum.splits if_splits prod.splits)

lemma switch_FINISH_SPAN:
  assumes "observe_FINISH_SPAN ro event read = Inr (ro1, r)"
  shows "ro1 = ro \<and> r \<noteq> None"
  using assms
  by (auto simp: observe_FINISH_SPAN_def Let_def split: option.splits sum.splits prod.splits)

lemma switch_MODIFY_ATTR:
  assumes "observe_MODIFY_ATTR ro event read = Inr (ro1, r)"
  shows "\<exists>sc. ro1 = ro\<lparr>scopes := fmupd (obSequence event) (ScopeEntry sc) (scopes ro)\<rparr> \<and>
         (r = None \<longleftrightarrow> obType event = observer_NEW_SCOPE)"
  using assms
  by (auto simp: observe_MODIFY_ATTR_def Let_def split: option.splits sum.splits if_splits prod.splits scope_entry.splits)

lemma switch_ADD_EVENT:
  assumes "observe_ADD_EVENT ro event read = Inr (ro1, r)"
  shows "ro1 = ro \<and> r \<noteq> None"
  using assms
  by (auto simp: observe_ADD_EVENT_def Let_def split: option.splits sum.splits prod.splits)

lemma switch_RECORD_STATS:
  assumes "observe_RECORD_STATS ro event read = Inr (ro1, r)"
  shows "ro1 = ro \<and> r \<noteq> None"
  using assms
  by (auto simp: observe_RECORD_STATS_def Let_def split: option.splits sum.splits prod.splits)

lemma switch_SET_STATUS:
  assumes "observe_SET_STATUS ro event read = Inr (ro1, r)"
  shows "(ro1 = ro \<or> (\<exists>a. ro1 = ro\<lparr>spanHeap := (spanHeap ro)(a := (spanHeap ro a)\<lparr>status := obStatus event\<rparr>)\<rparr>))
         \<and> r \<noteq> None"
  using assms
  by (auto simp: observe_SET_STATUS_def Let_def split: option.splits sum.splits prod.splits)

lemma switch_NEW_MEASURE:
  assumes "observe_NEW_MEASURE ro event = Inr (ro1, r)"
  shows "(\<exists>m. ro1 = ro\<lparr>measures := m\<rparr>) \<and> r = None"
  using assms by (auto simp: observe_NEW_MEASURE_def Let_def)

lemma switch_NEW_METRIC:
  assumes "observe_NEW_METRIC ro event = Inr (ro1, r)"
  shows "(\<exists>m. ro1 = ro\<lparr>metrics := m\<rparr>) \<and> r = None"
  using assms by (auto simp: observe_NEW_METRIC_def Let_def split: option.splits)

lemma switch_frame:
  assumes "observe_switch ro event = Inr (ro1, r)"
  shows "spanNext ro \<le> spanNext ro1 \<and>
         (\<forall>a. a < spanNext ro \<longrightarrow> frozen (spanHeap ro1 a) = frozen (spanHeap ro a)) \<and>
         (\<forall>k. k \<noteq> obSequence event \<longrightarrow> fmlookup (scopes ro1) k = fmlookup (scopes ro) k) \<and>
         readers ro1 = readers ro \<and> delivered ro1 = delivered ro"
proof (cases "obType event")
  case observer_START_SPAN
  with assms have "observe_START_SPAN ro event (newRead event) = Inr (ro1, r)"
    by (simp add: observe_switch_def)
  from switch_START_SPAN [OF this] have
    n: "spanNext ro1 = Suc (spanNext ro)" and
    h: "spanHeap ro1 = (spanHeap ro)(spanNext ro := spanHeap ro1 (spanNext ro))" and
    sc: "scopes ro1 = fmupd (obSequence event) (SpanEntry (spanNext ro)) (scopes ro)" and
    rd: "readers ro1 = readers ro" "delivered ro1 = delivered ro"
    by simp_all
  have "\<forall>a. a < spanNext ro \<longrightarrow> frozen (spanHeap ro1 a) = frozen (spanHeap ro a)"
  proof (intro allI impI)
    fix a assume "a < spanNext ro"
    then have "a \<noteq> spanNext ro" by simp
    then have "spanHeap ro1 a = spanHeap ro a"
      by (subst h) simp
    then show "frozen (spanHeap ro1 a) = frozen (spanHeap ro a)" by simp
  qed
  then show ?thesis using n sc rd by simp
next
  case observer_FINISH_SPAN
  with assms have "observe_FINISH_SPAN ro event (newRead event) = Inr (ro1, r)"
    by (simp add: observe_switch_def)
  from switch_FINISH_SPAN [OF this] show ?thesis by simp
next
  case observer_NEW_SCOPE
  with assms have "observe_MODIFY_ATTR ro event (newRead event) = Inr (ro1, r)"
    by (simp add: observe_switch_def)
  from switch_MODIFY_ATTR [OF this] show ?thesis by auto
next
  case observer_MODIFY_ATTR
  with assms have "observe_MODIFY_ATTR ro event (newRead event) = Inr (ro1, r)"
    by (simp add: observe_switch_def)
  from switch_MODIFY_ATTR [OF this] show ?thesis by auto
next
  case observer_NEW_MEASURE
  with assms have "observe_NEW_MEASURE ro event = Inr (ro1, r)"
    by (simp add: observe_switch_def)
  from switch_NEW_MEASURE [OF this] show ?thesis by auto
next
  case observer_NEW_METRIC
  with assms have "observe_NEW_METRIC ro event = Inr (ro1, r)"
    by (simp add: observe_switch_def)
  from switch_NEW_METRIC [OF this] show ?thesis by auto
next
  case observer_ADD_EVENT
  with assms have "observe_ADD_EVENT ro event (newRead event) = Inr (ro1, r)"
    by (simp add: observe_switch_def)
  from switch_ADD_EVENT [OF this] show ?thesis by simp
next
  case observer_RECORD_STATS
  with assms have "observe_RECORD_STATS ro event (newRead event) = Inr (ro1, r)"
    by (simp add: observe_switch_def)
  from switch_RECORD_STATS [OF this] show ?thesis by simp
next
  case observer_SET_STATUS
  with assms have "observe_SET_STATUS ro event (newRead event) = Inr (ro1, r)"
    by (simp add: observe_switch_def)
  from switch_SET_STATUS [OF this] show ?thesis by (auto simp: frozen_def)
next
  case observer_INVALID
  with assms show ?thesis by (simp add: observe_switch_def)
next
  case observer_ADD_EVENTF
  with assms show ?thesis by (simp add: observe_switch_def)
qed

lemma step_frame:
  "spanNext ro \<le> spanNext (fst (orderedObserve ro event)) \<and>
   (\<forall>a. a < spanNext ro \<longrightarrow> frozen (spanHeap (fst (orderedObserve ro event)) a) = frozen (spanHeap ro a)) \<and>
   (\<forall>k. k \<noteq> obSequence event \<longrightarrow>
        fmlookup (scopes (fst (orderedObserve ro event))) k = None \<or>
        fmlookup (scopes (fst (orderedObserve ro event))) k = fmlookup (scopes ro) k) \<and>
   readers (fst (orderedObserve ro event)) = readers ro"
proof (cases "observe_switch ro event")
  case (Inl p)
  then show ?thesis by (simp add: orderedObserve_def)
next
  case (Inr x)
  then obtain ro1 r where sw: "observe_switch ro event = Inr (ro1, r)" by (cases x) auto
  note fr = switch_frame [OF sw]
  show ?thesis
  proof (cases r)
    case None
    with sw fr show ?thesis by (simp add: orderedObserve_def)
  next
    case (Some read)
    show ?thesis
    proof (cases "obType event = observer_FINISH_SPAN")
      case False
      with sw Some fr show ?thesis by (simp add: orderedObserve_def)
    next
      case True
      let ?d = "deliver ro1 read"
      let ?c = "fst (cleanupSpan ?d (EventID (obScope event)))"
      have eq: "orderedObserve ro event = cleanupSpan ?d (EventID (obScope event))"
        using sw Some True by (simp add: orderedObserve_def)
      have f: "spanNext ?c = spanNext ro1" "spanHeap ?c = spanHeap ro1" "readers ?c = readers ro1"
        using cleanupSpan_fields [of ?d "EventID (obScope event)"] by simp_all
      have l: "fmlookup (scopes ?c) k = None \<or> fmlookup (scopes ?c) k = fmlookup (scopes ro1) k" for k
        using cleanupSpan_lookup [of ?d "EventID (obScope event)" k] by simp
      have "\<forall>k. k \<noteq> obSequence event \<longrightarrow>
              fmlookup (scopes ?c) k = None \<or> fmlookup (scopes ?c) k = fmlookup (scopes ro) k"
      proof (intro allI impI)
        fix k assume "k \<noteq> obSequence event"
        with fr have "fmlookup (scopes ro1) k = fmlookup (scopes ro) k" by simp
        with l [of k] show "fmlookup (scopes ?c) k = None \<or> fmlookup (scopes ?c) k = fmlookup (scopes ro) k"
          by simp
      qed
      then show ?thesis
        unfolding eq using fr f by simp
    qed
  qed
qed

lemma run_frame:
  assumes "\<forall>e\<in>set es. obSequence e \<noteq> k" and "a < spanNext ro"
  shows "a < spanNext (fst (observe_all ro es)) \<and>
         frozen (spanHeap (fst (observe_all ro es)) a) = frozen (spanHeap ro a) \<and>
         (fmlookup (scopes (fst (observe_all ro es))) k = None \<or>
          fmlookup (scopes (fst (observe_all ro es))) k = fmlookup (scopes ro) k) \<and>
         readers (fst (observe_all ro es)) = readers ro"
  using assms
proof (induction es arbitrary: ro)
  case Nil
  then show ?case by simp
next
  case (Cons e es)
  obtain ro1 p where st: "orderedObserve ro e = (ro1, p)" by (cases "orderedObserve ro e")
  from step_frame [of ro e] st Cons.prems have
    a1: "a < spanNext ro1" and
    h1: "frozen (spanHeap ro1 a) = frozen (spanHeap ro a)" and
    l1: "fmlookup (scopes ro1) k = None \<or> fmlookup (scopes ro1) k = fmlookup (scopes ro) k" and
    r1: "readers ro1 = readers ro"
    by auto
  show ?case
  proof (cases p)
    case (Some q)
    with st a1 h1 l1 r1 show ?thesis by (simp add: Observe_def)
  next
    case None
    from Cons.prems have "\<forall>e\<in>set es. obSequence e \<noteq> k" by simp
    from Cons.IH [OF this a1] h1 l1 r1 st None show ?thesis
      by (auto simp: Observe_def)
  qed
qed

lemma frozen_fields:
  assumes "frozen s = frozen t"
  shows "name s = name t" "start s = start t" "startTags s = startTags t"
        "spanContext s = spanContext t" "readerScope s = readerScope t"
proof -
  have "name (frozen s) = name (frozen t)" "start (frozen s) = start (frozen t)"
       "startTags (frozen s) = startTags (frozen t)"
       "spanContext (frozen s) = spanContext (frozen t)"
       "readerScope (frozen s) = readerScope (frozen t)"
    using assms by simp_all
  then show "name s = name t" "start s = start t" "startTags s = startTags t"
        "spanContext s = spanContext t" "readerScope s = readerScope t"
    by (simp_all add: frozen_def)
qed

lemma START_SPAN_stores:
  assumes "obType e1 = observer_START_SPAN" and "obContext e1 = Some ctx"
      and "orderedObserve ro e1 = (ro1, None)"
  shows "spanNext ro1 = Suc (spanNext ro) \<and>
         fmlookup (scopes ro1) (obSequence e1) = Some (SpanEntry (spanNext ro)) \<and>
         name (spanHeap ro1 (spanNext ro)) = obString e1 \<and>
         start (spanHeap ro1 (spanNext ro)) = obTime e1 \<and>
         startTags (spanHeap ro1 (spanNext ro)) = FromContext ctx \<and>
         spanContext (spanHeap ro1 (spanNext ro)) = SpanContext (obScope e1)"
  using assms
  by (auto simp: orderedObserve_def observe_switch_def observe_START_SPAN_def Let_def
        split: option.splits sum.splits if_splits prod.splits)

lemma switch_heap_parents:
  assumes sw: "observe_switch ro event = Inr (ro1, r)"
      and inv: "\<forall>a. parent (readerScope (spanHeap ro a)) = 0"
  shows "\<forall>a. parent (readerScope (spanHeap ro1 a)) = 0"
proof (cases "obType event")
  case observer_START_SPAN
  with sw have "observe_START_SPAN ro event (newRead event) = Inr (ro1, r)"
    by (simp add: observe_switch_def)
  with inv show ?thesis
    by (auto simp: observe_START_SPAN_def Let_def
          split: option.splits sum.splits if_splits prod.splits)
next
  case observer_SET_STATUS
  with sw have "observe_SET_STATUS ro event (newRead event) = Inr (ro1, r)"
    by (simp add: observe_switch_def)
  from switch_SET_STATUS [OF this] inv show ?thesis by auto
next
  case observer_FINISH_SPAN
  with sw have "observe_FINISH_SPAN ro event (newRead event) = Inr (ro1, r)"
    by (simp add: observe_switch_def)
  from switch_FINISH_SPAN [OF this] inv show ?thesis by simp
next
  case observer_NEW_SCOPE
  with sw have "observe_MODIFY_ATTR ro event (newRead event) = Inr (ro1, r)"
    by (simp add: observe_switch_def)
  from switch_MODIFY_ATTR [OF this] inv show ?thesis by auto
next
  case observer_MODIFY_ATTR
  with sw have "observe_MODIFY_ATTR ro event (newRead event) = Inr (ro1, r)"
    by (simp add: observe_switch_def)
  from switch_MODIFY_ATTR [OF this] inv show ?thesis by auto
next
  case observer_NEW_MEASURE
  with sw have "observe_NEW_MEASURE ro event = Inr (ro1, r)"
    by (simp add: observe_switch_def)
  from switch_NEW_MEASURE [OF this] inv show ?thesis by auto
next
  case observer_NEW_METRIC
  with sw have "observe_NEW_METRIC ro event = Inr (ro1, r)"
    by (simp add: observe_switch_def)
  from switch_NEW_METRIC [OF this] inv show ?thesis by auto
next
  case observer_ADD_EVENT
  with sw have "observe_ADD_EVENT ro event (newRead event) = Inr (ro1, r)"
    by (simp add: observe_switch_def)
  from switch_ADD_EVENT [OF this] inv show ?thesis by simp
next
  case observer_RECORD_STATS
  with sw have "observe_RECORD_STATS ro event (newRead event) = Inr (ro1, r)"
    by (simp add: observe_switch_def)
  from switch_RECORD_STATS [OF this] inv show ?thesis by simp
next
  case observer_INVALID
  with sw show ?thesis by (simp add: observe_switch_def)
next
  case observer_ADD_EVENTF
  with sw show ?thesis by (simp add: observe_switch_def)
qed

lemma step_heap_parents:
  assumes inv: "\<forall>a. parent (readerScope (spanHeap ro a)) = 0"
  shows "\<forall>a. parent (readerScope (spanHeap (fst (orderedObserve ro event)) a)) = 0"
proof (cases "observe_switch ro event")
  case (Inl p)
  with inv show ?thesis by (simp add: orderedObserve_def)
next
  case (Inr x)
  then obtain ro1 r where sw: "observe_switch ro event = Inr (ro1, r)" by (cases x) auto
  note h = switch_heap_parents [OF sw inv]
  show ?thesis
  proof (cases r)
    case None
    with sw h show ?thesis by (simp add: orderedObserve_def)
  next
    case (Some read)
    with sw h cleanupSpan_fields [of "deliver ro1 read" "EventID (obScope event)"]
    show ?thesis by (simp add: orderedObserve_def Let_def)
  qed
qed

lemma run_heap_parents:
  assumes "\<forall>a. parent (readerScope (spanHeap ro a)) = 0"
  shows "\<forall>a. parent (readerScope (spanHeap (fst (observe_all ro events)) a)) = 0"
  using assms
proof (induction events arbitrary: ro)
  case Nil
  then show ?case by simp
next
  case (Cons e es)
  obtain ro1 p where st: "orderedObserve ro e = (ro1, p)" by (cases "orderedObserve ro e")
  from step_heap_parents [OF Cons.prems, of e] st
  have h1: "\<forall>a. parent (readerScope (spanHeap ro1 a)) = 0" by simp
  show ?case
  proof (cases p)
    case None
    with st Cons.IH [OF h1] show ?thesis by (simp add: Observe_def)
  next
    case (Some q)
    with st h1 show ?thesis by (simp add: Observe_def)
  qed
qed

subsection \<open>Attribute deltas\<close>

text \<open>
  C1. A \<^verbatim>\<open>MODIFY_ATTR\<close> or \<^verbatim>\<open>NEW_SCOPE\<close> event whose scope reference names a node of the
  scope table is processed without panic. It stores, under the event's own sequence number, a
  scope node with the owning span of the referenced node, the reference as parent, and the
  snapshot of the referenced node with the event's delta (single key-value, several
  key-values, single mutator, several mutators) applied. Nothing else is written: the table
  is the old one with this one entry stored, the span heap is the old one, and the snapshot of
  the referenced node is what it was.
\<close>

theorem MODIFY_ATTR_applies_delta_to_parent_snapshot:
  assumes "obType event = observer_MODIFY_ATTR \<or> obType event = observer_NEW_SCOPE"
      and "EventID (obScope event) \<noteq> 0"
      and "fmlookup (scopes ro) (EventID (obScope event)) = Some node"
  shows "snd (orderedObserve ro event) = None \<and>
         scopes (fst (orderedObserve ro event)) =
           fmupd (obSequence event)
             (ScopeEntry \<lparr>span = entry_span node, parent = EventID (obScope event),
                attributes = Apply (entry_attributes ro node)
                  \<lparr>SingleKV = obAttribute event, MultiKV = obAttributes event,
                   SingleMutator = obMutator event, MultiMutator = obMutators event\<rparr>\<rparr>)
             (scopes ro) \<and>
         spanHeap (fst (orderedObserve ro event)) = spanHeap ro \<and>
         entry_attributes (fst (orderedObserve ro event)) node = entry_attributes ro node"
  using assms
  by (cases node)
     (auto simp: orderedObserve_def observe_switch_def observe_MODIFY_ATTR_def Let_def
        entry_span_def entry_attributes_def split: option.splits)

theorem MODIFY_ATTR_applies_delta_to_parent_snapshot_witness:
  "obType ex_modify = observer_MODIFY_ATTR \<and> EventID (obScope ex_modify) = 2 \<and>
   fmlookup (scopes ex_ro2) 2 = Some (SpanEntry 0) \<and>
   entry_attributes ex_ro2 (SpanEntry 0) = ex_x1 \<and>
   snd (orderedObserve ex_ro2 ex_modify) = None \<and>
   fmlookup (scopes (fst (orderedObserve ex_ro2 ex_modify))) 3 =
     Some (ScopeEntry \<lparr>span = Some 0, parent = 2,
             attributes = fmupd (key_New ''y'') (STRING ''2'') ex_x1\<rparr>) \<and>
   entry_attributes (fst (orderedObserve ex_ro2 ex_modify)) (SpanEntry 0) = ex_x1"
  using MODIFY_ATTR_applies_delta_to_parent_snapshot [of ex_modify ex_ro2 "SpanEntry 0"]
  by (simp add: ex_ro2_fields ex_events entry_span_def entry_attributes_def Apply_def
      upsert_def Key_String_def ex_span_def)

subsection \<open>Span nodes\<close>

text \<open>
  C4. A \<^verbatim>\<open>START_SPAN\<close> event that is processed without panic stores, under its sequence
  number, a span node whose embedded scope record has parent identifier 0, the span itself as
  owning span, and the attributes resolved from the event's scope reference, whatever that
  reference is. And span nodes stay roots: after any run of events from a new reader
  observer, panic or not, the parent of every span node of the scope table is 0, so the walk
  of the parent pointers ends at a span node.
\<close>

theorem START_SPAN_node_has_parent_zero:
  "(obType event = observer_START_SPAN \<and> orderedObserve ro event = (ro', None)
    \<longrightarrow> (\<exists>a rattrs sp.
           readScope ro (obScope event) = Inr (rattrs, sp) \<and>
           fmlookup (scopes ro') (obSequence event) = Some (SpanEntry a) \<and>
           readerScope (spanHeap ro' a) = \<lparr>span = Some a, parent = 0, attributes = rattrs\<rparr> \<and>
           entry_parent ro' (SpanEntry a) = 0)) \<and>
   (fmlookup (scopes (fst (observe_all (NewReaderObserver rs) events))) k = Some (SpanEntry b)
    \<longrightarrow> entry_parent (fst (observe_all (NewReaderObserver rs) events)) (SpanEntry b) = 0)"
proof (intro conjI impI)
  assume "obType event = observer_START_SPAN \<and> orderedObserve ro event = (ro', None)"
  then show "\<exists>a rattrs sp.
           readScope ro (obScope event) = Inr (rattrs, sp) \<and>
           fmlookup (scopes ro') (obSequence event) = Some (SpanEntry a) \<and>
           readerScope (spanHeap ro' a) = \<lparr>span = Some a, parent = 0, attributes = rattrs\<rparr> \<and>
           entry_parent ro' (SpanEntry a) = 0"
    by (auto simp: orderedObserve_def observe_switch_def observe_START_SPAN_def Let_def
          entry_parent_def split: option.splits sum.splits if_splits prod.splits)
next
  have "\<forall>a. parent (readerScope (spanHeap (NewReaderObserver rs) a)) = 0"
    by (simp add: NewReaderObserver_def)
  from run_heap_parents [OF this, of events]
  show "entry_parent (fst (observe_all (NewReaderObserver rs) events)) (SpanEntry b) = 0"
    by (simp add: entry_parent_def)
qed

theorem START_SPAN_node_has_parent_zero_witness:
  "obType ex_start = observer_START_SPAN \<and> EventID (obScope ex_start) = 1 \<and>
   orderedObserve ex_ro1 ex_start = (ex_ro2, None) \<and>
   (\<exists>a rattrs sp.
      readScope ex_ro1 (obScope ex_start) = Inr (rattrs, sp) \<and>
      fmlookup (scopes ex_ro2) (obSequence ex_start) = Some (SpanEntry a) \<and>
      readerScope (spanHeap ex_ro2 a) = \<lparr>span = Some a, parent = 0, attributes = rattrs\<rparr> \<and>
      entry_parent ex_ro2 (SpanEntry a) = 0) \<and>
   fst (observe_all (NewReaderObserver [10, 20]) [ex_new_scope, ex_start, ex_modify]) = ex_ro3 \<and>
   fmlookup (scopes ex_ro3) 2 = Some (SpanEntry 0) \<and>
   entry_parent ex_ro3 (SpanEntry 0) = 0"
proof -
  have ty: "obType ex_start = observer_START_SPAN" "EventID (obScope ex_start) = 1"
    by (simp_all add: ex_events)
  have run: "orderedObserve ex_ro1 ex_start = (ex_ro2, None)"
    by (simp add: ex_ro2_def ex_ro1_fields ex_events observe_defs HasTraceID_def)
  have all: "fst (observe_all (NewReaderObserver [10, 20]) [ex_new_scope, ex_start, ex_modify]) = ex_ro3"
    by (subst ex_run_all) simp
  note T = START_SPAN_node_has_parent_zero [of ex_start ex_ro1 ex_ro2 "[10, 20]"
      "[ex_new_scope, ex_start, ex_modify]" 2 0]
  have a: "\<exists>a rattrs sp.
      readScope ex_ro1 (obScope ex_start) = Inr (rattrs, sp) \<and>
      fmlookup (scopes ex_ro2) (obSequence ex_start) = Some (SpanEntry a) \<and>
      readerScope (spanHeap ex_ro2 a) = \<lparr>span = Some a, parent = 0, attributes = rattrs\<rparr> \<and>
      entry_parent ex_ro2 (SpanEntry a) = 0"
    using T ty(1) run by blast
  have b: "entry_parent ex_ro3 (SpanEntry 0) = 0"
    using T ex_ro3_fields(1) unfolding all by blast
  show ?thesis using ty run a all ex_ro3_fields(1) b by blast
qed

subsection \<open>The record of a finished span\<close>

lemma run_heap_frozen:
  assumes "a < spanNext ro"
  shows "a < spanNext (fst (observe_all ro es)) \<and>
         frozen (spanHeap (fst (observe_all ro es)) a) = frozen (spanHeap ro a)"
  using assms
proof (induction es arbitrary: ro)
  case Nil
  then show ?case by simp
next
  case (Cons e es)
  obtain ro1 p where st: "orderedObserve ro e = (ro1, p)" by (cases "orderedObserve ro e")
  from step_frame [of ro e] st Cons.prems have
    a1: "a < spanNext ro1" and
    h1: "frozen (spanHeap ro1 a) = frozen (spanHeap ro a)"
    by auto
  show ?case
  proof (cases p)
    case (Some q)
    with st a1 h1 show ?thesis by (simp add: Observe_def)
  next
    case None
    from Cons.IH [OF a1] h1 st None show ?thesis
      by (simp add: Observe_def)
  qed
qed

lemma time_Sub_in_range:
  "minDuration \<le> t - u \<Longrightarrow> t - u \<le> maxDuration \<Longrightarrow> time_Sub t u = t - u"
  by (simp add: time_Sub_def Let_def)

text \<open>
  A \<^verbatim>\<open>FINISH_SPAN\<close> event that names the sequence number of the \<^verbatim>\<open>START_SPAN\<close> event
  resolves to the span object of that event, as long as no later event reuses the number and
  the node is still in the table.
\<close>

lemma direct_reference_resolves:
  assumes st: "obType e1 = observer_START_SPAN" "obContext e1 = Some ctx"
              "orderedObserve ro e1 = (ro1, None)"
      and run: "observe_all ro1 es = (ro2, None)"
      and uniq: "\<forall>e\<in>set es. obSequence e \<noteq> obSequence e1"
      and fin: "EventID sid = obSequence e1" "obSequence e1 \<noteq> 0"
      and live: "fmlookup (scopes ro2) (obSequence e1) \<noteq> None"
  shows "readScope ro2 sid =
           Inr (attributes (readerScope (spanHeap ro2 (spanNext ro))), Some (spanNext ro))"
proof -
  note s1 = START_SPAN_stores [OF st]
  have a: "spanNext ro < spanNext ro1" using s1 by simp
  from run_frame [OF uniq a] run have
    "fmlookup (scopes ro2) (obSequence e1) = None \<or>
     fmlookup (scopes ro2) (obSequence e1) = fmlookup (scopes ro1) (obSequence e1)"
    by (metis fst_conv)
  with live s1 have "fmlookup (scopes ro2) (obSequence e1) = Some (SpanEntry (spanNext ro))"
    by auto
  with fin show ?thesis by (simp add: readScope_def)
qed

text \<open>
  C5, as stated, fails. The span of the small run starts at time 100; a \<^verbatim>\<open>FINISH_SPAN\<close>
  event at time 10000000000000000100 resolves to it. The finish time minus the start time is
  10000000000000000000 nanoseconds, more than a \<^verbatim>\<open>Duration\<close> holds, and the duration of the
  output record is the maximum \<^verbatim>\<open>Duration\<close>, 9223372036854775807.
\<close>

theorem FINISH_SPAN_duration_saturates_counterexample:
  "obType ex_finish_far = observer_FINISH_SPAN \<and>
   readScope ex_ro3 (obScope ex_finish_far) = Inr (ex_x1, Some 0) \<and>
   start (spanHeap ex_ro3 0) = 100 \<and>
   obTime ex_finish_far - start (spanHeap ex_ro3 0) = 10000000000000000000 \<and>
   (\<exists>read. observe_switch ex_ro3 ex_finish_far = Inr (ex_ro3, Some read) \<and>
      evDuration read = 9223372036854775807)"
  by (simp add: ex_finish_far_def observe_switch_def observe_FINISH_SPAN_def readScope_def
      Let_def ex_ro3_fields ex_events ex_span_def time_Sub_def maxDuration_def minDuration_def)

text \<open>
  C5, amended. A span is started by a \<^verbatim>\<open>START_SPAN\<close> event, any events follow, and the scope
  reference of a \<^verbatim>\<open>FINISH_SPAN\<close> event then resolves to the span object of that
  \<^verbatim>\<open>START_SPAN\<close> event, by the span node itself or by a scope node that the span owns. The
  output record of the \<^verbatim>\<open>FINISH_SPAN\<close> event is delivered to every reader; its duration is
  \<^verbatim>\<open>Time.Sub\<close> of the finish time and the start time of the \<^verbatim>\<open>START_SPAN\<close> event, which
  is the finish time minus the start time exactly when that difference can be stored in a
  \<^verbatim>\<open>Duration\<close>; its tags are the tags of the context of the \<^verbatim>\<open>START_SPAN\<close> event, its name
  and span context are those of the \<^verbatim>\<open>START_SPAN\<close> event, and its attributes are the
  snapshot that the reference resolves to.
\<close>

theorem FINISH_SPAN_reports_start_data:
  assumes st: "obType e1 = observer_START_SPAN" "obContext e1 = Some ctx"
              "orderedObserve ro e1 = (ro1, None)"
      and run: "observe_all ro1 es = (ro2, None)"
      and fin: "obType e2 = observer_FINISH_SPAN"
      and res: "readScope ro2 (obScope e2) = Inr (attrs, Some (spanNext ro))"
  shows "\<exists>read. observe_switch ro2 e2 = Inr (ro2, Some read) \<and>
           delivered (fst (orderedObserve ro2 e2)) =
             delivered ro2 @ map (\<lambda>reader. (reader, read)) (readers ro2) \<and>
           evType read = FINISH_SPAN \<and>
           evDuration read = time_Sub (obTime e2) (obTime e1) \<and>
           (minDuration \<le> obTime e2 - obTime e1 \<and> obTime e2 - obTime e1 \<le> maxDuration
            \<longrightarrow> evDuration read = obTime e2 - obTime e1) \<and>
           evTags read = FromContext ctx \<and>
           evName read = obString e1 \<and>
           evSpanContext read = SpanContext (obScope e1) \<and>
           evAttributes read = attrs"
proof -
  let ?a = "spanNext ro"
  note s1 = START_SPAN_stores [OF st]
  have a: "?a < spanNext ro1" using s1 by simp
  from run_heap_frozen [OF a, of es] run have
    fz: "frozen (spanHeap ro2 ?a) = frozen (spanHeap ro1 ?a)"
    by simp
  note ff = frozen_fields [OF fz]
  define read where "read = (newRead e2)\<lparr>evName := name (spanHeap ro2 ?a), evType := FINISH_SPAN,
      evAttributes := attrs,
      evDuration := time_Sub (obTime e2) (start (spanHeap ro2 ?a)),
      evTags := startTags (spanHeap ro2 ?a),
      evSpanContext := spanContext (spanHeap ro2 ?a)\<rparr>"
  have sw: "observe_switch ro2 e2 = Inr (ro2, Some read)"
    using fin res
    by (simp add: observe_switch_def observe_FINISH_SPAN_def Let_def read_def)
  have "orderedObserve ro2 e2 = cleanupSpan (deliver ro2 read) (EventID (obScope e2))"
    using sw fin by (simp add: orderedObserve_def)
  then have "delivered (fst (orderedObserve ro2 e2)) = delivered (deliver ro2 read)"
    using cleanupSpan_fields [of "deliver ro2 read" "EventID (obScope e2)"] by simp
  then have del: "delivered (fst (orderedObserve ro2 e2)) =
      delivered ro2 @ map (\<lambda>reader. (reader, read)) (readers ro2)"
    by (simp add: delivered_deliver)
  have d: "evDuration read = time_Sub (obTime e2) (obTime e1)"
    using ff s1 by (simp add: read_def)
  have d': "minDuration \<le> obTime e2 - obTime e1 \<and> obTime e2 - obTime e1 \<le> maxDuration
            \<longrightarrow> evDuration read = obTime e2 - obTime e1"
    using d by (simp add: time_Sub_in_range)
  have "evType read = FINISH_SPAN" "evTags read = FromContext ctx" "evName read = obString e1"
       "evSpanContext read = SpanContext (obScope e1)" "evAttributes read = attrs"
    using ff s1 by (simp_all add: read_def)
  with sw del d d' show ?thesis by blast
qed

theorem FINISH_SPAN_reports_start_data_witness:
  "obType ex_start = observer_START_SPAN \<and> obContext ex_start = Some ex_ctx \<and>
   orderedObserve ex_ro1 ex_start = (ex_ro2, None) \<and> spanNext ex_ro1 = 0 \<and>
   observe_all ex_ro2 [ex_modify] = (ex_ro3, None) \<and>
   obType ex_finish = observer_FINISH_SPAN \<and>
   readScope ex_ro3 (obScope ex_finish) = Inr (ex_x1, Some 0) \<and>
   (\<exists>read. observe_switch ex_ro3 ex_finish = Inr (ex_ro3, Some read) \<and>
      delivered (fst (orderedObserve ex_ro3 ex_finish)) =
        delivered ex_ro3 @ [(10, read), (20, read)] \<and>
      evType read = FINISH_SPAN \<and> evDuration read = 150 \<and>
      evTags read = fmupd (key_New ''env'') (STRING ''prod'') fmempty \<and>
      evName read = ''op'' \<and> evSpanContext read = ex_sc \<and> evAttributes read = ex_x1) \<and>
   obType ex_finish_last = observer_FINISH_SPAN \<and>
   readScope ex_ro3 (obScope ex_finish_last) =
     Inr (fmupd (key_New ''y'') (STRING ''2'') ex_x1, Some 0) \<and>
   (\<exists>read. observe_switch ex_ro3 ex_finish_last = Inr (ex_ro3, Some read) \<and>
      delivered (fst (orderedObserve ex_ro3 ex_finish_last)) =
        delivered ex_ro3 @ [(10, read), (20, read)] \<and>
      evType read = FINISH_SPAN \<and> evDuration read = 150 \<and>
      evTags read = fmupd (key_New ''env'') (STRING ''prod'') fmempty \<and>
      evName read = ''op'' \<and> evSpanContext read = ex_sc \<and>
      evAttributes read = fmupd (key_New ''y'') (STRING ''2'') ex_x1) \<and>
   obType ex_finish_far = observer_FINISH_SPAN \<and>
   (\<exists>read. observe_switch ex_ro3 ex_finish_far = Inr (ex_ro3, Some read) \<and>
      evDuration read = time_Sub 10000000000000000100 100 \<and> evName read = ''op'')"
proof -
  have st: "obType ex_start = observer_START_SPAN" "obContext ex_start = Some ex_ctx"
    by (simp_all add: ex_events)
  have step: "orderedObserve ex_ro1 ex_start = (ex_ro2, None)"
    by (simp add: ex_ro2_def ex_ro1_fields ex_events observe_defs HasTraceID_def)
  have nx: "spanNext ex_ro1 = 0" by (simp add: ex_ro1_fields)
  have fin: "obType ex_finish = observer_FINISH_SPAN"
    "obType ex_finish_last = observer_FINISH_SPAN" "obType ex_finish_far = observer_FINISH_SPAN"
    by (simp_all add: ex_events ex_finish_last_def ex_finish_far_def)
  have r1: "readScope ex_ro3 (obScope ex_finish) = Inr (ex_x1, Some (spanNext ex_ro1))"
    by (simp add: readScope_def ex_ro3_fields ex_events ex_span_def nx)
  have r2: "readScope ex_ro3 (obScope ex_finish_last) =
      Inr (fmupd (key_New ''y'') (STRING ''2'') ex_x1, Some (spanNext ex_ro1))"
    by (simp add: readScope_def ex_ro3_fields ex_events ex_finish_last_def nx)
  have r3: "readScope ex_ro3 (obScope ex_finish_far) = Inr (ex_x1, Some (spanNext ex_ro1))"
    by (simp add: readScope_def ex_ro3_fields ex_events ex_finish_far_def ex_span_def nx)
  have c1: "\<exists>read. observe_switch ex_ro3 ex_finish = Inr (ex_ro3, Some read) \<and>
      delivered (fst (orderedObserve ex_ro3 ex_finish)) =
        delivered ex_ro3 @ [(10, read), (20, read)] \<and>
      evType read = FINISH_SPAN \<and> evDuration read = 150 \<and>
      evTags read = fmupd (key_New ''env'') (STRING ''prod'') fmempty \<and>
      evName read = ''op'' \<and> evSpanContext read = ex_sc \<and> evAttributes read = ex_x1"
    using FINISH_SPAN_reports_start_data [OF st step ex_ro3_run fin(1) r1]
    by (simp add: ex_ro3_fields ex_events FromContext_def time_Sub_def Let_def
        maxDuration_def minDuration_def)
  have c2: "\<exists>read. observe_switch ex_ro3 ex_finish_last = Inr (ex_ro3, Some read) \<and>
      delivered (fst (orderedObserve ex_ro3 ex_finish_last)) =
        delivered ex_ro3 @ [(10, read), (20, read)] \<and>
      evType read = FINISH_SPAN \<and> evDuration read = 150 \<and>
      evTags read = fmupd (key_New ''env'') (STRING ''prod'') fmempty \<and>
      evName read = ''op'' \<and> evSpanContext read = ex_sc \<and>
      evAttributes read = fmupd (key_New ''y'') (STRING ''2'') ex_x1"
    using FINISH_SPAN_reports_start_data [OF st step ex_ro3_run fin(2) r2]
    by (simp add: ex_ro3_fields ex_events ex_finish_last_def FromContext_def time_Sub_def
        Let_def maxDuration_def minDuration_def)
  have c3: "\<exists>read. observe_switch ex_ro3 ex_finish_far = Inr (ex_ro3, Some read) \<and>
      evDuration read = time_Sub 10000000000000000100 100 \<and> evName read = ''op''"
    using FINISH_SPAN_reports_start_data [OF st step ex_ro3_run fin(3) r3]
    by (auto simp add: ex_events ex_finish_far_def)
  show ?thesis
    using st step nx ex_ro3_run fin c1 c2 c3 r1 r2 unfolding nx by (intro conjI)
qed

subsection \<open>Cleanup after a finished span\<close>

lemma is_chain_heap_cong:
  "scopes ro' = scopes ro \<Longrightarrow> spanHeap ro' = spanHeap ro \<Longrightarrow>
     is_chain ro' eid ks = is_chain ro eid ks"
  by (induction ks arbitrary: eid)
     (auto simp: entry_parent_def split: option.splits scope_entry.splits)

lemma is_chain_dropped:
  assumes "is_chain (ro\<lparr>scopes := fmdrop k (scopes ro)\<rparr>) eid ks"
  shows "k \<notin> set ks \<and> is_chain ro eid ks"
  using assms
proof (induction ks arbitrary: eid)
  case Nil
  then show ?case by simp
next
  case (Cons x xs)
  then show ?case
    by (auto split: option.splits if_splits)
qed

lemma is_chain_dom: "is_chain ro eid ks \<Longrightarrow> set ks \<subseteq> fmdom' (scopes ro)"
  by (induction ks arbitrary: eid) (auto split: option.splits intro: fmdom'I)

lemma cleanupSpan_chain:
  "snd (cleanupSpan ro eid) = None \<Longrightarrow>
     \<exists>ks. is_chain ro eid ks \<and> distinct ks \<and>
          scopes (fst (cleanupSpan ro eid)) = fmdrop_set (set ks) (scopes ro)"
proof (induction ro eid rule: cleanupSpan.induct)
  case (1 ro eid)
  show ?case
  proof (cases "eid = 0")
    case True
    then have "is_chain ro eid [] \<and> distinct ([]::EventID list) \<and>
        scopes (fst (cleanupSpan ro eid)) = fmdrop_set (set []) (scopes ro)"
      by (simp add: cleanupSpan.simps)
    then show ?thesis by blast
  next
    case False
    show ?thesis
    proof (cases "fmlookup (scopes ro) eid")
      case None
      with False "1.prems" show ?thesis by (simp add: cleanupSpan.simps)
    next
      case (Some ev)
      let ?ro = "ro\<lparr>scopes := fmdrop eid (scopes ro)\<rparr>"
      have step: "cleanupSpan ro eid = cleanupSpan ?ro (entry_parent ro ev)"
        using False Some by (simp add: cleanupSpan.simps [of ro eid])
      with "1.prems" have "snd (cleanupSpan ?ro (entry_parent ro ev)) = None" by simp
      from "1.IH" [OF False Some this] obtain ks where
        ch: "is_chain ?ro (entry_parent ro ev) ks" and d: "distinct ks"
        and sc: "scopes (fst (cleanupSpan ?ro (entry_parent ro ev))) = fmdrop_set (set ks) (scopes ?ro)"
        by blast
      from is_chain_dropped [OF ch] have nin: "eid \<notin> set ks" and ch': "is_chain ro (entry_parent ro ev) ks"
        by simp_all
      have "is_chain ro eid (eid # ks)" using False Some ch' by simp
      moreover have "distinct (eid # ks)" using d nin by simp
      moreover have "scopes (fst (cleanupSpan ro eid)) = fmdrop_set (set (eid # ks)) (scopes ro)"
        using sc step by simp
      ultimately show ?thesis by blast
    qed
  qed
qed

lemma is_chain_drop:
  assumes "is_chain ro eid ks" and "k \<notin> set ks"
  shows "is_chain (ro\<lparr>scopes := fmdrop k (scopes ro)\<rparr>) eid ks"
  using assms
proof (induction ks arbitrary: eid)
  case Nil
  then show ?case by simp
next
  case (Cons x xs)
  then show ?case
    by (auto split: option.splits if_splits)
qed

lemma cleanupSpan_succeeds:
  "is_chain ro eid ks \<Longrightarrow> distinct ks \<Longrightarrow> snd (cleanupSpan ro eid) = None"
proof (induction ks arbitrary: ro eid)
  case Nil
  then show ?case by (simp add: cleanupSpan.simps)
next
  case (Cons k ks)
  from Cons.prems obtain ev where k: "eid = k" "k \<noteq> 0" and look: "fmlookup (scopes ro) k = Some ev"
    and ch: "is_chain ro (entry_parent ro ev) ks"
    by (auto split: option.splits)
  from Cons.prems have nin: "k \<notin> set ks" and d: "distinct ks" by simp_all
  have "is_chain (ro\<lparr>scopes := fmdrop k (scopes ro)\<rparr>) (entry_parent ro ev) ks"
    by (rule is_chain_drop [OF ch nin])
  from Cons.IH [OF this d]
  have "snd (cleanupSpan (ro\<lparr>scopes := fmdrop k (scopes ro)\<rparr>) (entry_parent ro ev)) = None" .
  then show ?case using k look by (simp add: cleanupSpan.simps [of ro k])
qed

lemma card_dropped_chain:
  assumes "set ks \<subseteq> fmdom' m" and "distinct ks"
  shows "card (fmdom' (fmdrop_set (set ks) m)) + length ks = card (fmdom' m)"
proof -
  have "card (fmdom' m - set ks) = card (fmdom' m) - card (set ks)"
    using assms by (simp add: card_Diff_subset)
  moreover have "card (set ks) \<le> card (fmdom' m)"
    using assms by (simp add: card_mono)
  moreover have "card (set ks) = length ks"
    using assms by (simp add: distinct_card)
  ultimately show ?thesis by simp
qed

lemma ex_finish_run:
  "orderedObserve ex_ro3 ex_finish =
     ((deliver ex_ro3 ((newRead ex_finish)\<lparr>evName := ''op'', evType := FINISH_SPAN,
         evAttributes := ex_x1, evDuration := 150,
         evTags := fmupd (key_New ''env'') (STRING ''prod'') fmempty,
         evSpanContext := ex_sc\<rparr>))\<lparr>scopes := fmdrop 2 (scopes ex_ro3)\<rparr>, None)"
  by (simp add: observe_defs ex_ro3_fields ex_events ex_span_def time_Sub_def maxDuration_def minDuration_def
      cleanupSpan.simps [of _ 2] cleanupSpan.simps [of _ 0] entry_parent_def)

lemma ex_finish_last_run:
  "orderedObserve ex_ro3 ex_finish_last =
     ((deliver ex_ro3 ((newRead ex_finish_last)\<lparr>evName := ''op'', evType := FINISH_SPAN,
         evAttributes := fmupd (key_New ''y'') (STRING ''2'') ex_x1, evDuration := 150,
         evTags := fmupd (key_New ''env'') (STRING ''prod'') fmempty,
         evSpanContext := ex_sc\<rparr>))\<lparr>scopes := fmdrop 2 (fmdrop 3 (scopes ex_ro3))\<rparr>, None)"
  by (simp add: observe_defs ex_ro3_fields ex_events ex_span_def time_Sub_def maxDuration_def minDuration_def
      ex_finish_last_def
      cleanupSpan.simps [of _ 3] cleanupSpan.simps [of _ 2] cleanupSpan.simps [of _ 0]
      entry_parent_def)

text \<open>
  C2, as stated, fails. The span of the small run has one private scope mutation: node 3,
  stored by the \<^verbatim>\<open>MODIFY_ATTR\<close> event that names the span node 2, owned by the span and
  referenced by no other node. The \<^verbatim>\<open>FINISH_SPAN\<close> event names the span's own identifier 2.
  The walk from 2 meets the span node, whose parent is 0, and stops: the table goes from three
  entries to two, not by N + 1 = 2, and node 3 stays in the table.
\<close>

theorem FINISH_SPAN_keeps_private_scope_counterexample:
  "obType ex_finish = observer_FINISH_SPAN \<and> EventID (obScope ex_finish) = 2 \<and>
   fmlookup (scopes ex_ro3) 2 = Some (SpanEntry 0) \<and>
   fmlookup (scopes ex_ro3) 3 =
     Some (ScopeEntry \<lparr>span = Some 0, parent = 2,
             attributes = fmupd (key_New ''y'') (STRING ''2'') ex_x1\<rparr>) \<and>
   card (fmdom' (scopes ex_ro3)) = 3 \<and>
   snd (orderedObserve ex_ro3 ex_finish) = None \<and>
   card (fmdom' (scopes (fst (orderedObserve ex_ro3 ex_finish)))) = 2 \<and>
   fmlookup (scopes (fst (orderedObserve ex_ro3 ex_finish))) 3 = fmlookup (scopes ex_ro3) 3"
  by (simp add: ex_finish_run ex_ro3_fields) (simp add: ex_events)

text \<open>
  C2, amended. A \<^verbatim>\<open>FINISH_SPAN\<close> event processed without panic deletes from the scope table
  exactly the nodes on the chain walked from the identifier of the event's scope reference
  through the parent pointers down to 0: the identifiers on the chain are distinct, the new
  table is the old one without them, its size is smaller by the length of the chain, and the
  other tables and the span heap are unchanged. The length is N + 1 when the reference names
  the last of N scope nodes chained one off the other down to the span node. Conversely, the
  event is processed without panic when its reference resolves to a span and the walk from
  its identifier reaches 0 without meeting an identifier twice.
\<close>

theorem FINISH_SPAN_cleanup_deletes_walked_chain:
  "(obType event = observer_FINISH_SPAN \<and> orderedObserve ro event = (ro', None)
    \<longrightarrow> (\<exists>ks. is_chain ro (EventID (obScope event)) ks \<and> distinct ks \<and>
           scopes ro' = fmdrop_set (set ks) (scopes ro) \<and>
           card (fmdom' (scopes ro')) + length ks = card (fmdom' (scopes ro)) \<and>
           measures ro' = measures ro \<and> metrics ro' = metrics ro \<and>
           spanHeap ro' = spanHeap ro)) \<and>
   (obType event = observer_FINISH_SPAN \<and>
    readScope ro (obScope event) = Inr (attrs, Some a) \<and>
    is_chain ro (EventID (obScope event)) js \<and> distinct js
    \<longrightarrow> snd (orderedObserve ro event) = None)"
proof (intro conjI impI)
  assume h: "obType event = observer_FINISH_SPAN \<and> orderedObserve ro event = (ro', None)"
  then have ty: "obType event = observer_FINISH_SPAN"
    and ok: "orderedObserve ro event = (ro', None)" by simp_all
  from ok obtain x where sw0: "observe_switch ro event = Inr x"
    by (cases "observe_switch ro event") (simp_all add: orderedObserve_def)
  obtain ro1 r where sw: "observe_switch ro event = Inr (ro1, r)"
    using sw0 by (cases x) simp
  from sw ty have fs: "observe_FINISH_SPAN ro event (newRead event) = Inr (ro1, r)"
    by (simp add: observe_switch_def)
  from switch_FINISH_SPAN [OF fs] obtain read where r: "r = Some read" and ro1: "ro1 = ro"
    by auto
  let ?d = "deliver ro read"
  let ?eid = "EventID (obScope event)"
  have eq: "orderedObserve ro event = cleanupSpan ?d ?eid"
    using sw r ro1 ty by (simp add: orderedObserve_def)
  with ok have res: "cleanupSpan ?d ?eid = (ro', None)" by simp
  then have "snd (cleanupSpan ?d ?eid) = None" by simp
  from cleanupSpan_chain [OF this] res obtain ks where
    ch: "is_chain ?d ?eid ks" and d: "distinct ks"
    and sc: "scopes ro' = fmdrop_set (set ks) (scopes ro)"
    by auto
  have ch': "is_chain ro ?eid ks"
    using ch is_chain_heap_cong [of ?d ro ?eid ks] by simp
  have "set ks \<subseteq> fmdom' (scopes ro)" by (rule is_chain_dom [OF ch'])
  from card_dropped_chain [OF this d] sc
  have cd: "card (fmdom' (scopes ro')) + length ks = card (fmdom' (scopes ro))" by simp
  have "measures ro' = measures ro" "metrics ro' = metrics ro" "spanHeap ro' = spanHeap ro"
    using cleanupSpan_fields [of ?d ?eid] res by simp_all
  with ch' d sc cd show "\<exists>ks. is_chain ro (EventID (obScope event)) ks \<and> distinct ks \<and>
           scopes ro' = fmdrop_set (set ks) (scopes ro) \<and>
           card (fmdom' (scopes ro')) + length ks = card (fmdom' (scopes ro)) \<and>
           measures ro' = measures ro \<and> metrics ro' = metrics ro \<and>
           spanHeap ro' = spanHeap ro"
    by blast
next
  assume h: "obType event = observer_FINISH_SPAN \<and>
    readScope ro (obScope event) = Inr (attrs, Some a) \<and>
    is_chain ro (EventID (obScope event)) js \<and> distinct js"
  then obtain read where sw: "observe_switch ro event = Inr (ro, Some read)"
    by (auto simp: observe_switch_def observe_FINISH_SPAN_def Let_def)
  let ?d = "deliver ro read"
  have eq: "orderedObserve ro event = cleanupSpan ?d (EventID (obScope event))"
    using sw h by (simp add: orderedObserve_def)
  have "is_chain ?d (EventID (obScope event)) js"
    using h is_chain_heap_cong [of ?d ro "EventID (obScope event)" js] by simp
  from cleanupSpan_succeeds [OF this] h eq
  show "snd (orderedObserve ro event) = None" by simp
qed

theorem FINISH_SPAN_cleanup_deletes_walked_chain_witness:
  "obType ex_finish = observer_FINISH_SPAN \<and>
   snd (orderedObserve ex_ro3 ex_finish) = None \<and>
   is_chain ex_ro3 (EventID (obScope ex_finish)) [2] \<and>
   (\<exists>ks. is_chain ex_ro3 (EventID (obScope ex_finish)) ks \<and> distinct ks \<and>
      scopes (fst (orderedObserve ex_ro3 ex_finish)) = fmdrop_set (set ks) (scopes ex_ro3) \<and>
      card (fmdom' (scopes (fst (orderedObserve ex_ro3 ex_finish)))) + length ks = 3) \<and>
   obType ex_finish_last = observer_FINISH_SPAN \<and>
   snd (orderedObserve ex_ro3 ex_finish_last) = None \<and>
   is_chain ex_ro3 (EventID (obScope ex_finish_last)) [3, 2] \<and>
   (\<exists>ks. is_chain ex_ro3 (EventID (obScope ex_finish_last)) ks \<and> distinct ks \<and>
      scopes (fst (orderedObserve ex_ro3 ex_finish_last)) = fmdrop_set (set ks) (scopes ex_ro3) \<and>
      card (fmdom' (scopes (fst (orderedObserve ex_ro3 ex_finish_last)))) + length ks = 3)"
proof -
  have ty: "obType ex_finish = observer_FINISH_SPAN" "obType ex_finish_last = observer_FINISH_SPAN"
    by (simp_all add: ex_events ex_finish_last_def)
  have ch: "is_chain ex_ro3 (EventID (obScope ex_finish)) [2]"
    "is_chain ex_ro3 (EventID (obScope ex_finish_last)) [3, 2]"
    by (simp_all add: ex_events ex_finish_last_def ex_ro3_fields entry_parent_def ex_span_def)
  have cd: "card (fmdom' (scopes ex_ro3)) = 3"
    by (simp add: ex_ro3_fields)
  have ok: "snd (orderedObserve ex_ro3 ex_finish) = None"
    "snd (orderedObserve ex_ro3 ex_finish_last) = None"
    by (simp_all add: ex_finish_run ex_finish_last_run)
  have r1: "orderedObserve ex_ro3 ex_finish = (fst (orderedObserve ex_ro3 ex_finish), None)"
    using ok(1) by (simp add: prod_eq_iff)
  have r2: "orderedObserve ex_ro3 ex_finish_last = (fst (orderedObserve ex_ro3 ex_finish_last), None)"
    using ok(2) by (simp add: prod_eq_iff)
  show ?thesis
    using ty ch ok
      FINISH_SPAN_cleanup_deletes_walked_chain
        [of ex_finish ex_ro3 "fst (orderedObserve ex_ro3 ex_finish)" ex_x1 0 "[2]"]
      FINISH_SPAN_cleanup_deletes_walked_chain
        [of ex_finish_last ex_ro3 "fst (orderedObserve ex_ro3 ex_finish_last)" ex_x1 0 "[3, 2]"]
      r1 r2
    unfolding cd by blast
qed

subsection \<open>References that do not resolve\<close>


lemma ex_finish_switch:
  "observe_switch ex_ro3 ex_finish = Inr (ex_ro3, Some ex_finish_read)"
  by (simp add: observe_switch_def observe_FINISH_SPAN_def readScope_def Let_def
      ex_ro3_fields ex_events ex_span_def time_Sub_def maxDuration_def minDuration_def ex_finish_read_def)


text \<open>
  C6, as stated, fails. A \<^verbatim>\<open>NEW_MEASURE\<close> event whose scope reference 7 is not in the scope
  table is processed without panic: the case never reads the reference. A \<^verbatim>\<open>NEW_METRIC\<close>
  event whose measure reference is 0 panics: the measure table is read without a test for 0.
\<close>

theorem NEW_MEASURE_ignores_scope_reference_counterexample:
  "obType ex_new_measure = observer_NEW_MEASURE \<and>
   EventID (obScope ex_new_measure) = 7 \<and>
   fmlookup (scopes ex_ro1) 7 = None \<and>
   snd (orderedObserve ex_ro1 ex_new_measure) = None \<and>
   obType ex_new_metric = observer_NEW_METRIC \<and>
   EventID (obScope ex_new_metric) = 0 \<and>
   orderedObserve ex_ro1 ex_new_metric = (ex_ro1, Some MetricMeasureNotFound)"
  by (simp add: ex_new_measure_def ex_new_metric_def zero_Event_def EmptyScopeID_def
      ex_ro1_fields orderedObserve_def observe_switch_def observe_NEW_MEASURE_def
      observe_NEW_METRIC_def Let_def)

text \<open>
  C6, amended. An event of a type that resolves its scope reference (\<^verbatim>\<open>START_SPAN\<close>,
  \<^verbatim>\<open>FINISH_SPAN\<close>, \<^verbatim>\<open>NEW_SCOPE\<close>, \<^verbatim>\<open>MODIFY_ATTR\<close>, \<^verbatim>\<open>ADD_EVENT\<close>, \<^verbatim>\<open>RECORD_STATS\<close>,
  \<^verbatim>\<open>SET_STATUS\<close>) whose reference is not 0 and not in the scope table panics, and a
  \<^verbatim>\<open>NEW_METRIC\<close> event whose measure reference, 0 or not, is not in the measure table
  panics; the state is then what it was, so no record is delivered and no table is written. A
  \<^verbatim>\<open>NEW_MEASURE\<close> event looks nothing up: it registers the measure and delivers nothing. A
  scope reference of 0 resolves to the empty snapshot and no owning span.
\<close>

theorem absent_reference_panics:
  "(obType event \<in> {observer_START_SPAN, observer_FINISH_SPAN, observer_NEW_SCOPE,
       observer_MODIFY_ATTR, observer_ADD_EVENT, observer_RECORD_STATS, observer_SET_STATUS} \<and>
    EventID (obScope event) \<noteq> 0 \<and> fmlookup (scopes ro) (EventID (obScope event)) = None
    \<longrightarrow> (\<exists>p. orderedObserve ro event = (ro, Some p) \<and>
              p \<in> {ScopeNotFound (EventID (obScope event)), ParentScopeNotFound, NilContext})) \<and>
   (obType event = observer_NEW_METRIC \<and>
    fmlookup (measures ro) (EventID (obScope event)) = None
    \<longrightarrow> orderedObserve ro event = (ro, Some MetricMeasureNotFound)) \<and>
   (obType event = observer_NEW_MEASURE
    \<longrightarrow> orderedObserve ro event =
          (ro\<lparr>measures := fmupd (obSequence event) \<lparr>measureName = obString event\<rparr> (measures ro)\<rparr>,
           None)) \<and>
   (EventID sid = 0 \<longrightarrow> readScope ro sid = Inr (NewEmptyMap, None))"
  by (auto simp: orderedObserve_def observe_switch_def observe_START_SPAN_def
        observe_FINISH_SPAN_def observe_MODIFY_ATTR_def observe_ADD_EVENT_def
        observe_RECORD_STATS_def observe_SET_STATUS_def observe_NEW_METRIC_def
        observe_NEW_MEASURE_def readScope_def Let_def split: option.splits)

theorem absent_reference_panics_witness:
  "obType ex_add_event = observer_ADD_EVENT \<and> EventID (obScope ex_add_event) = 7 \<and>
   fmlookup (scopes ex_ro1) 7 = None \<and>
   (\<exists>p. orderedObserve ex_ro1 ex_add_event = (ex_ro1, Some p) \<and>
        p \<in> {ScopeNotFound 7, ParentScopeNotFound, NilContext}) \<and>
   obType ex_new_metric = observer_NEW_METRIC \<and>
   fmlookup (measures ex_ro1) (EventID (obScope ex_new_metric)) = None \<and>
   orderedObserve ex_ro1 ex_new_metric = (ex_ro1, Some MetricMeasureNotFound) \<and>
   obType ex_new_measure = observer_NEW_MEASURE \<and>
   snd (orderedObserve ex_ro1 ex_new_measure) = None \<and>
   EventID EmptyScopeID = 0 \<and> readScope ex_ro1 EmptyScopeID = Inr (NewEmptyMap, None)"
proof -
  have h1: "obType ex_add_event = observer_ADD_EVENT" "EventID (obScope ex_add_event) = 7"
    "fmlookup (scopes ex_ro1) 7 = None"
    by (simp_all add: ex_add_event_def zero_Event_def ex_ro1_fields)
  have h2: "obType ex_new_metric = observer_NEW_METRIC"
    "fmlookup (measures ex_ro1) (EventID (obScope ex_new_metric)) = None"
    by (simp_all add: ex_new_metric_def zero_Event_def ex_ro1_fields)
  have h3: "obType ex_new_measure = observer_NEW_MEASURE" "EventID EmptyScopeID = 0"
    by (simp_all add: ex_new_measure_def zero_Event_def EmptyScopeID_def)
  show ?thesis
    using h1 h2 h3
      absent_reference_panics [of ex_add_event ex_ro1 EmptyScopeID]
      absent_reference_panics [of ex_new_metric ex_ro1 EmptyScopeID]
      absent_reference_panics [of ex_new_measure ex_ro1 EmptyScopeID]
    by simp
qed

subsection \<open>Delivery to the readers\<close>





lemma newRead_fields [simp]:
  "evTime (newRead event) = obTime event" "evSequence (newRead event) = obSequence event"
  "evStats (newRead event) = []"
  by (simp_all add: newRead_def)
















section \<open>Properties of the tracer\<close>

subsection \<open>The sequencer and the small run\<close>

lemma Record_result:
  "Record event w =
     (Suc (lastEventID w),
      w\<lparr>lastEventID := Suc (lastEventID w),
        stream := stream w @ [event\<lparr>obSequence := Suc (lastEventID w)\<rparr>]\<rparr>)"
  by (simp add: Record_def NextEventID_def)

lemma NewScope_result:
  "NewScope parentScope attrs w =
     (\<lparr>EventID = Suc (lastEventID w), SpanContext = SpanContext parentScope\<rparr>,
      w\<lparr>lastEventID := Suc (lastEventID w),
        stream := stream w @ [zero_Event\<lparr>obType := observer_NEW_SCOPE, obScope := parentScope,
                                 obAttributes := attrs, obSequence := Suc (lastEventID w)\<rparr>]\<rparr>)"
  by (simp add: NewScope_def Record_result)

lemmas sdk_defs = Start_def New_def rand_Uint64_def Let_def zero_SpanOptions_def
  HasTraceID_def EmptySpanContext_def EmptyScopeID_def CurrentSpan_def span_SpanContext_def
  NewScope_result Record_result SetCurrentSpan_def zero_Event_def

lemma ex_B_result:
  "ex_B = ((ex_ctxB, ex_spanB),
           \<lparr>lastEventID = 2, stream = [ex_eB0, ex_eB1],
            randSource = (\<lambda>n. of_nat (Suc n)), randPos = 3\<rparr>)"
  by (simp add: ex_B_def ex_w0_def ex_ctx0_def ex_with_x_def sdk_defs
      ex_ctxB_def ex_spanB_def ex_scB_def ex_eB0_def ex_eB1_def)

lemma ex_C_result:
  "fst ex_C = (ex_ctxB\<lparr>ctxSpan := Some ex_spanC\<rparr>, ex_spanC)"
  "stream (snd ex_C) = [ex_eB0, ex_eB1, ex_eC0, ex_eC1]"
  by (simp_all add: ex_C_def ex_B_result sdk_defs
      ex_ctxB_def ex_spanB_def ex_spanC_def ex_scB_def ex_scC_def ex_eC0_def ex_eC1_def)

lemma ex_op_result:
  "Start New ex_ctx0 ''op'' [] ex_w0 = ((ex_ctx_op, ex_span_op), ex_w_op)"
  "lastEventID ex_w_op = 2"
  by (simp_all add: ex_w_op_def ex_w0_def ex_ctx0_def sdk_defs ex_ctx_op_def ex_span_op_def)

lemma ex_r1_fields:
  "scopes ex_r1 = fmupd 1 (ScopeEntry \<lparr>span = None, parent = 0, attributes = ex_x1\<rparr>) fmempty"
  "spanNext ex_r1 = 0"
  by (simp_all add: ex_r1_def NewReaderObserver_def ex_eB0_def zero_Event_def observe_defs
      Apply_def upsert_def Key_String_def NewEmptyMap_def ex_x1_def)

lemma ex_r2_fields:
  "scopes ex_r2 = fmupd 2 (SpanEntry 0) (scopes ex_r1)"
  "spanNext ex_r2 = 1"
  "spanContext (spanHeap ex_r2 0) = ex_scB"
  "attributes (readerScope (spanHeap ex_r2 0)) = ex_x1"
  by (simp_all add: ex_r2_def ex_r1_fields ex_eB1_def zero_Event_def observe_defs
      HasTraceID_def EmptyScopeID_def EmptySpanContext_def)

lemma ex_r3_fields:
  "scopes ex_r3 =
     fmupd 3 (ScopeEntry \<lparr>span = None, parent = 0, attributes = fmempty\<rparr>) (scopes ex_r2)"
  "spanHeap ex_r3 = spanHeap ex_r2"
  by (simp_all add: ex_r3_def ex_r2_fields ex_r1_fields ex_eC0_def zero_Event_def observe_defs
      Apply_def NewEmptyMap_def)

lemma Start_trace_id:
  assumes "Start t ctx nm opts w = ((ctx', sp), w')"
      and "so = fold (\<lambda>opt so. opt so) opts zero_SpanOptions"
      and "ref = refSpanContext (Reference so)"
      and "cur = span_SpanContext (CurrentSpan ctx)"
  shows "SpanID (SpanContext (initial sp)) = randSource w (randPos w) \<and>
         (HasTraceID ref \<longrightarrow>
            TraceID (SpanContext (initial sp)) = TraceID ref \<and>
            obParent (last (stream w')) = \<lparr>EventID = 0, SpanContext = ref\<rparr>) \<and>
         (\<not> HasTraceID ref \<and> HasTraceID cur \<longrightarrow>
            TraceID (SpanContext (initial sp)) = TraceID cur \<and>
            obParent (last (stream w')) = \<lparr>EventID = 0, SpanContext = cur\<rparr>) \<and>
         (\<not> HasTraceID ref \<and> \<not> HasTraceID cur \<longrightarrow>
            TraceID (SpanContext (initial sp)) =
              \<lparr>High = randSource w (Suc (randPos w)),
               Low = randSource w (Suc (Suc (randPos w)))\<rparr>)"
  using assms
  by (cases "TraceID ref"; cases "TraceID cur")
     (auto simp: Start_def Let_def rand_Uint64_def NewScope_result Record_result
        EmptyScopeID_def EmptySpanContext_def split: if_splits prod.splits)

lemma START_SPAN_without_parent_id:
  assumes "obType e = observer_START_SPAN" and "EventID (obParent e) = 0"
      and "observe_switch ro e = Inr (ro1, Some read)"
  shows "evParentAttributes read = None \<and>
         evParent read = (if HasTraceID (SpanContext (obParent e))
                          then SpanContext (obParent e) else EmptySpanContext)"
  using assms
  by (auto simp: observe_switch_def observe_START_SPAN_def readScope_def newRead_def Let_def
        split: option.splits sum.splits if_splits prod.splits)

subsection \<open>Parent resolution\<close>

text \<open>
  C3. \<^verbatim>\<open>Start\<close> copies the span context of the explicit reference or of the current span
  into the parent scope and leaves its event identifier 0. So the \<^verbatim>\<open>START_SPAN\<close> event of
  every call of \<^verbatim>\<open>Start\<close> has parent identifier 0, and the reader, whose local-parent branch
  needs a parent identifier that resolves to a span node, reports no parent attributes for it:
  not for a remote reference, as the claim says, and not for a local current span either,
  where the claim says the record carries the attribute snapshot of the parent. The trace id
  and the parent context are as the claim says (lemma \<open>Start_trace_id\<close>).
\<close>

theorem Start_reports_no_parent_attributes:
  assumes "Start t ctx nm opts w = ((ctx', sp), w')"
  shows "\<exists>e0 e. stream w' = stream w @ [e0, e] \<and>
           obType e = observer_START_SPAN \<and>
           obSequence e = EventID (initial sp) \<and>
           EventID (obParent e) = 0 \<and>
           (\<forall>ro ro1 read. observe_switch ro e = Inr (ro1, Some read)
                \<longrightarrow> evParentAttributes read = None)"
proof -
  from assms obtain e0 e where
    st: "stream w' = stream w @ [e0, e]" and ty: "obType e = observer_START_SPAN"
    and sq: "obSequence e = EventID (initial sp)" and pz: "EventID (obParent e) = 0"
    by (auto simp: Start_def Let_def rand_Uint64_def NewScope_result Record_result
          EmptyScopeID_def zero_Event_def split: if_splits prod.splits)
  have "\<forall>ro ro1 read. observe_switch ro e = Inr (ro1, Some read)
          \<longrightarrow> evParentAttributes read = None"
    using START_SPAN_without_parent_id [OF ty pz] by blast
  with st ty sq pz show ?thesis by blast
qed

theorem Start_reports_no_parent_attributes_witness:
  "Start New ex_ctxB ''C'' [] (snd ex_B) = ex_C \<and>
   CurrentSpan ex_ctxB = Some ex_spanB \<and>
   TraceID (SpanContext (initial ex_spanC)) = TraceID (SpanContext (initial ex_spanB)) \<and>
   stream (snd ex_C) = stream (snd ex_B) @ [ex_eC0, ex_eC1] \<and>
   fmlookup (scopes ex_r3) (EventID (initial ex_spanB)) = Some (SpanEntry 0) \<and>
   entry_attributes ex_r3 (SpanEntry 0) = ex_x1 \<and>
   (\<exists>ro1 read. observe_switch ex_r3 ex_eC1 = Inr (ro1, Some read) \<and>
      evParent read = SpanContext (initial ex_spanB) \<and>
      evParentAttributes read = None)"
proof -
  have run: "Start New ex_ctxB ''C'' [] (snd ex_B) = ((fst (fst ex_C), snd (fst ex_C)), snd ex_C)"
    by (simp add: ex_C_def ex_B_result)
  from Start_reports_no_parent_attributes [OF run] obtain e0 e where
    st: "stream (snd ex_C) = stream (snd ex_B) @ [e0, e]"
    and none: "\<forall>ro ro1 read. observe_switch ro e = Inr (ro1, Some read)
                 \<longrightarrow> evParentAttributes read = None"
    by blast
  from st have e: "e = ex_eC1" "e0 = ex_eC0"
    by (simp_all add: ex_C_result ex_B_result)
  obtain ro1 read where sw: "observe_switch ex_r3 ex_eC1 = Inr (ro1, Some read)"
    and par: "evParent read = SpanContext (initial ex_spanB)"
    by (simp add: observe_switch_def observe_START_SPAN_def readScope_def newRead_def Let_def
        ex_r3_fields ex_r2_fields ex_r1_fields ex_eC1_def zero_Event_def HasTraceID_def
        ex_scB_def ex_spanB_def)
  from none e sw have pa: "evParentAttributes read = None" by blast
  have a: "Start New ex_ctxB ''C'' [] (snd ex_B) = ex_C"
    by (simp add: ex_C_def ex_B_result)
  have b: "CurrentSpan ex_ctxB = Some ex_spanB"
    "TraceID (SpanContext (initial ex_spanC)) = TraceID (SpanContext (initial ex_spanB))"
    "stream (snd ex_C) = stream (snd ex_B) @ [ex_eC0, ex_eC1]"
    "fmlookup (scopes ex_r3) (EventID (initial ex_spanB)) = Some (SpanEntry 0)"
    "entry_attributes ex_r3 (SpanEntry 0) = ex_x1"
    by (simp_all add: CurrentSpan_def ex_ctxB_def ex_spanC_def ex_spanB_def ex_scB_def
        ex_scC_def ex_C_result ex_B_result ex_r3_fields ex_r2_fields ex_r1_fields
        entry_attributes_def)
  show ?thesis using a b sw par pa by blast
qed

subsection \<open>WithSpan\<close>

text \<open>
  C7. \<^verbatim>\<open>WithSpan\<close> returns what the body returns: nil, the body's error, or the body's
  panic. After the body it emits, for an error, the \<^verbatim>\<open>MODIFY_ATTR\<close> event with the attribute
  error = true and the \<^verbatim>\<open>ADD_EVENT\<close> event "span error" with the error's message, and then,
  on every path, the \<^verbatim>\<open>FINISH_SPAN\<close> event of the started span: exactly one
  \<^verbatim>\<open>FINISH_SPAN\<close> event, and it is the last.
\<close>

theorem WithSpan_finishes_once:
  assumes st: "Start t ctx nm [] w = ((ctx1, sp), w1)"
      and bd: "body ctx1 w1 = (r, w2)"
  shows "\<exists>w'. WithSpan t ctx nm body w = (r, w') \<and>
           stream w' =
             stream w2 @
             (case r of Returns (Some err) \<Rightarrow> error_events sp ctx1 err (lastEventID w2)
                      | _ \<Rightarrow> []) @
             [finish_event sp (lastEventID w')] \<and>
           length (filter (\<lambda>e. obType e = observer_FINISH_SPAN)
                     (drop (length (stream w2)) (stream w'))) = 1"
proof (cases r)
  case (Panics v)
  then show ?thesis
    using st bd
    by (simp add: WithSpan_def span_Finish_def Record_result finish_event_def)
next
  case (Returns eo)
  show ?thesis
  proof (cases eo)
    case None
    with Returns show ?thesis
      using st bd
      by (simp add: WithSpan_def span_Finish_def Record_result finish_event_def)
  next
    case (Some err)
    with Returns show ?thesis
      using st bd
      by (simp add: WithSpan_def span_Finish_def span_SetAttribute_def span_Event_def
          Record_result finish_event_def error_events_def zero_Event_def)
  qed
qed

theorem WithSpan_finishes_once_witness:
  "Start New ex_ctx0 ''op'' [] ex_w0 = ((ex_ctx_op, ex_span_op), ex_w_op) \<and>
   ex_body_fails ex_ctx_op ex_w_op = (Returns (Some ''boom''), ex_w_op) \<and>
   (\<exists>w'. WithSpan New ex_ctx0 ''op'' ex_body_fails ex_w0 = (Returns (Some ''boom''), w') \<and>
      stream w' = stream ex_w_op @ error_events ex_span_op ex_ctx_op ''boom'' 2 @
                  [finish_event ex_span_op (lastEventID w')] \<and>
      length (filter (\<lambda>e. obType e = observer_FINISH_SPAN)
                (drop (length (stream ex_w_op)) (stream w'))) = 1) \<and>
   ex_body_panics ex_ctx_op ex_w_op = (Panics ''index out of range'', ex_w_op) \<and>
   (\<exists>w'. WithSpan New ex_ctx0 ''op'' ex_body_panics ex_w0 = (Panics ''index out of range'', w') \<and>
      stream w' = stream ex_w_op @ [finish_event ex_span_op (lastEventID w')] \<and>
      length (filter (\<lambda>e. obType e = observer_FINISH_SPAN)
                (drop (length (stream ex_w_op)) (stream w'))) = 1)"
proof -
  have b1: "ex_body_fails ex_ctx_op ex_w_op = (Returns (Some ''boom''), ex_w_op)"
    by (simp add: ex_body_fails_def)
  have b2: "ex_body_panics ex_ctx_op ex_w_op = (Panics ''index out of range'', ex_w_op)"
    by (simp add: ex_body_panics_def)
  show ?thesis
    using ex_op_result(1) b1 b2
      WithSpan_finishes_once [where body = ex_body_fails, OF ex_op_result(1) b1]
      WithSpan_finishes_once [where body = ex_body_panics, OF ex_op_result(1) b2]
    by (simp add: ex_op_result(2))
qed

subsection \<open>Resource scopes\<close>

text \<open>
  C9. \<^verbatim>\<open>WithResources\<close> emits one event, a \<^verbatim>\<open>NEW_SCOPE\<close> event with the given
  attributes whose scope reference is the tracer's resource scope (0 for the tracer of
  \<^verbatim>\<open>New\<close>), and returns a tracer whose resource scope is the sequence number of that
  event; the tracer it is called on is a value and is not written. No span is created: the
  reader that observes the event allocates no span object, writes none, and delivers no
  record. \<^verbatim>\<open>WithComponent\<close> and \<^verbatim>\<open>WithService\<close> are \<^verbatim>\<open>WithResources\<close> with the
  component and the service key-value.
\<close>

theorem WithResources_emits_one_NEW_SCOPE:
  "WithResources t attrs w =
     (\<lparr>resources = Suc (lastEventID w)\<rparr>,
      w\<lparr>lastEventID := Suc (lastEventID w),
        stream := stream w @ [scope_event (resources t) attrs (Suc (lastEventID w))]\<rparr>) \<and>
   (\<forall>ro n. spanNext (fst (orderedObserve ro (scope_event (resources t) attrs n))) = spanNext ro \<and>
      spanHeap (fst (orderedObserve ro (scope_event (resources t) attrs n))) = spanHeap ro \<and>
      delivered (fst (orderedObserve ro (scope_event (resources t) attrs n))) = delivered ro) \<and>
   WithComponent t nm w = WithResources t [Key_String ComponentKey nm] w \<and>
   WithService t nm w = WithResources t [Key_String ServiceKey nm] w \<and>
   resources New = 0"
proof -
  have "spanNext (fst (orderedObserve ro (scope_event (resources t) attrs n))) = spanNext ro \<and>
      spanHeap (fst (orderedObserve ro (scope_event (resources t) attrs n))) = spanHeap ro \<and>
      delivered (fst (orderedObserve ro (scope_event (resources t) attrs n))) = delivered ro"
    for ro n
    by (simp add: orderedObserve_def observe_switch_def observe_MODIFY_ATTR_def Let_def
        scope_event_def zero_Event_def split: option.splits scope_entry.splits)
  then show ?thesis
    by (simp add: WithResources_def NewScope_result WithComponent_def WithService_def New_def
        scope_event_def zero_Event_def)
qed

theorem WithResources_emits_one_NEW_SCOPE_witness:
  "WithResources New [Key_String ServiceKey ''db''] ex_w0 =
     (\<lparr>resources = 1\<rparr>,
      ex_w0\<lparr>lastEventID := 1,
        stream := [scope_event 0 [Key_String ServiceKey ''db''] 1]\<rparr>) \<and>
   WithService New ''db'' ex_w0 = WithResources New [Key_String ServiceKey ''db''] ex_w0 \<and>
   delivered (fst (orderedObserve ex_ro2 (scope_event 0 [Key_String ServiceKey ''db''] 1))) =
     delivered ex_ro2 \<and>
   spanNext (fst (orderedObserve ex_ro2 (scope_event 0 [Key_String ServiceKey ''db''] 1))) = 1"
  using WithResources_emits_one_NEW_SCOPE [of New "[Key_String ServiceKey ''db'']" ex_w0 "''db''"]
  by (simp add: ex_w0_def New_def ex_ro2_fields)

section \<open>Properties of the configuration\<close>

text \<open>
  C8. \<^verbatim>\<open>ApplyConfig\<close> stores one new configuration: the current one, with the sampler and
  the identifier generator replaced where the argument's are not nil, and each cap replaced
  where the argument's is positive; a nil sampler or generator and a cap that is zero or
  negative leave the field of the current configuration as it is.
\<close>

theorem ApplyConfig_merges_fields:
  "ApplyConfig cfg (Some c) =
     Inr (Some \<lparr>DefaultSampler =
                   (if DefaultSampler cfg \<noteq> None then DefaultSampler cfg else DefaultSampler c),
                 IDGenerator =
                   (if IDGenerator cfg \<noteq> None then IDGenerator cfg else IDGenerator c),
                 MaxEventsPerSpan =
                   (if MaxEventsPerSpan cfg > 0 then MaxEventsPerSpan cfg else MaxEventsPerSpan c),
                 MaxAttributesPerSpan =
                   (if MaxAttributesPerSpan cfg > 0 then MaxAttributesPerSpan cfg
                    else MaxAttributesPerSpan c),
                 MaxLinksPerSpan =
                   (if MaxLinksPerSpan cfg > 0 then MaxLinksPerSpan cfg else MaxLinksPerSpan c)\<rparr>)"
  by (cases c) (simp add: ApplyConfig_def Let_def)

theorem ApplyConfig_merges_fields_witness:
  "ApplyConfig ex_override (Some ex_config) =
     Inr (Some \<lparr>DefaultSampler = Some ''always'', IDGenerator = Some ''custom'',
                 MaxEventsPerSpan = 128, MaxAttributesPerSpan = 32, MaxLinksPerSpan = 64\<rparr>)"
  using ApplyConfig_merges_fields [of ex_override ex_config]
  by (simp add: ex_override_def ex_config_def DefaultMaxEventsPerSpan_def
      DefaultMaxAttributesPerSpan_def DefaultMaxLinksPerSpan_def)

end
